theory Spec2Isabelle
  imports Main
begin

section \<open>XML element trees and the path queries used by celldesigner2qual.py\<close>

text \<open>
  An element of \<^verbatim>\<open>xml.etree.ElementTree\<close>: its tag (a namespaced tag is the string
  \<^verbatim>\<open>{uri}local\<close>), its attribute dictionary in insertion order, its text (\<^verbatim>\<open>None\<close> when
  the element has none) and its children in document order. The type of attribute
  values is a parameter: the parser only produces strings, whereas the emitter stores
  whatever the species table holds, \<^verbatim>\<open>None\<close> included.
\<close>

datatype 'v element =
  Element (tag: string) (attrib: "(string \<times> 'v) list") (etext: "string option")
    (children: "'v element list")

text \<open>\<^verbatim>\<open>elem.get(key)\<close>: the attribute's value, \<^verbatim>\<open>None\<close> when the key is absent.\<close>

definition get :: "'v element \<Rightarrow> string \<Rightarrow> 'v option" where
  "get e k = map_of (attrib e) k"

text \<open>\<^verbatim>\<open>elem.iter()\<close>: the element and all its descendants, in document order.\<close>

fun iter :: "'v element \<Rightarrow> 'v element list" where
  "iter (Element t a x cs) = Element t a x cs # concat (map iter cs)"

text \<open>The namespace table \<^verbatim>\<open>NS\<close>, as far as the input side uses it.\<close>

definition NS_sbml :: string where
  "NS_sbml = ''http://www.sbml.org/sbml/level2/version4''"

definition NS_cd :: string where
  "NS_cd = ''http://www.sbml.org/2001/ns/celldesigner''"

definition sbml :: "string \<Rightarrow> string" where
  "sbml l = ''{'' @ NS_sbml @ ''}'' @ l"

definition cd :: "string \<Rightarrow> string" where
  "cd l = ''{'' @ NS_cd @ ''}'' @ l"

text \<open>
  The path strings of the source, parsed: \<^verbatim>\<open>.\<close> is \<open>Self\<close>, \<^verbatim>\<open>/p:t\<close> is \<open>Child\<close> of the
  expanded tag, \<^verbatim>\<open>//p:t\<close> is \<open>Desc\<close>, \<^verbatim>\<open>[@k]\<close> is \<open>HasAttr k\<close> and \<^verbatim>\<open>[@k="v"]\<close> is
  \<open>AttrEq k v\<close>. Each step maps the current result sequence to the next one, as the
  selectors of \<^verbatim>\<open>ElementPath\<close> do. These are the paths the source writes as literals;
  the one path it builds by string concatenation is \<open>find_species\<close> below.
\<close>

datatype step = Self | Child string | Desc string | HasAttr string | AttrEq string string

fun select :: "step \<Rightarrow> string element list \<Rightarrow> string element list" where
  "select Self es = es"
| "select (Child t) es = concat (map (\<lambda>e. filter (\<lambda>c. tag c = t) (children e)) es)"
| "select (Desc t) es =
     concat (map (\<lambda>e. filter (\<lambda>c. tag c = t) (concat (map iter (children e)))) es)"
| "select (HasAttr k) es = filter (\<lambda>e. get e k \<noteq> None) es"
| "select (AttrEq k v) es = filter (\<lambda>e. get e k = Some v) es"

definition findall :: "string element \<Rightarrow> step list \<Rightarrow> string element list" where
  "findall e path = foldl (\<lambda>es s. select s es) [e] path"

definition find_elem :: "string element \<Rightarrow> step list \<Rightarrow> string element option" where
  "find_elem e path = (case findall e path of [] \<Rightarrow> None | r # _ \<Rightarrow> Some r)"

section \<open>The species table\<close>

text \<open>
  The exceptions the program can end with. \<open>SystemExit n\<close> is what \<^verbatim>\<open>exit(n)\<close> raises;
  \<open>ParseError\<close> stands for whatever \<^verbatim>\<open>etree.parse\<close> raises on a file it cannot read.
  \<open>Unparsed\<close> is no exception of Python: it marks a path string that the path model
  above does not read, see \<open>find_species\<close>.
\<close>

datatype error =
  AttributeError | TypeError | IndexError | ParseError | SystemExit nat | Unparsed

text \<open>
  A reaction as stored in a species' \<^verbatim>\<open>transitions\<close> list: the tuple
  \<^verbatim>\<open>(rtype, reacs, mods)\<close>. Every string read with \<^verbatim>\<open>.get\<close> or \<^verbatim>\<open>.text\<close> may be \<^verbatim>\<open>None\<close>.
\<close>

type_synonym influence =
  "string option \<times> string option list \<times> (string option \<times> string option) list"

text \<open>The dictionary stored per alias; the fields carry the prefix \<open>r_\<close>.\<close>

record species_record =
  r_activity :: "string option"
  r_x :: "string option"
  r_y :: "string option"
  r_h :: "string option"
  r_w :: "string option"
  r_transitions :: "influence list"
  r_name :: "string option"
  r_type :: "string option"
  r_modifications :: "string option list"

text \<open>
  \<^verbatim>\<open>nameconv\<close>: a Python dictionary, which iterates in insertion order. The keys are
  \<^verbatim>\<open>species.get('id')\<close>, hence optional strings.
\<close>

type_synonym table = "(string option \<times> species_record) list"

text \<open>\<^verbatim>\<open>d[k] = v\<close>: an existing key keeps its position, a new key goes last.\<close>

fun setitem :: "'k \<Rightarrow> 'a \<Rightarrow> ('k \<times> 'a) list \<Rightarrow> ('k \<times> 'a) list" where
  "setitem k v [] = [(k, v)]"
| "setitem k v ((k', v') # d) = (if k' = k then (k, v) # d else (k', v') # setitem k v d)"

definition get_class :: "string element option \<Rightarrow> string option" where
  "get_class cd_class = (case cd_class of Some c \<Rightarrow> etext c | None \<Rightarrow> Some ''PROTEIN'')"

text \<open>
  \<^verbatim>\<open>if cd_modifications:\<close> tests the truth value of an element, which is false for
  \<^verbatim>\<open>None\<close> and for an element without children.
\<close>

definition get_mods :: "string element option \<Rightarrow> string option list" where
  "get_mods cd_modifications =
     (case cd_modifications of
        None \<Rightarrow> []
      | Some m \<Rightarrow>
          if children m \<noteq> []
          then map (\<lambda>md. get md ''state'') (findall m [Child (cd ''modification'')])
          else [])"

text \<open>The two alias sequences that \<^verbatim>\<open>species_info\<close> chains, complex aliases first.\<close>

definition complex_alias_path :: "step list" where
  "complex_alias_path =
     [Self, Child (sbml ''annotation''), Child (cd ''extension''),
      Child (cd ''listOfComplexSpeciesAliases''), Child (cd ''complexSpeciesAlias'')]"

definition species_alias_path :: "step list" where
  "species_alias_path =
     [Self, Child (sbml ''annotation''), Child (cd ''extension''),
      Child (cd ''listOfSpeciesAliases''), Child (cd ''speciesAlias'')]"

definition aliases :: "string element \<Rightarrow> string element list" where
  "aliases model =
     findall model (complex_alias_path @ [HasAttr ''compartmentAlias'']) @
     findall model (species_alias_path @ [HasAttr ''compartmentAlias''])"

text \<open>
  The species lookup, \<^verbatim>\<open>model.find('./sbml:listOfSpecies/sbml:species[@id="' + ref + '"]')\<close>.
  The path is built by string concatenation. The tokenizer of \<^verbatim>\<open>ElementPath\<close> reads a
  double quote and everything up to the next double quote as one string token, so a
  reference without a double quote gives the predicate \<^verbatim>\<open>[@id="ref"]\<close>, which keeps the
  elements whose \<^verbatim>\<open>id\<close> attribute equals the reference: \<open>AttrEq ''id'' ref\<close>. A reference
  that holds a double quote ends the token early and the rest of it is read as path
  syntax: depending on what it spells, \<^verbatim>\<open>find\<close> raises \<^verbatim>\<open>SyntaxError\<close> or \<^verbatim>\<open>KeyError\<close>, or
  selects by other predicates and steps than the one intended. That parser is not
  modelled. For such a reference the lookup answers \<open>Unparsed\<close>, which says nothing of
  what the program does, and every statement below that depends on the lookup is made
  for references without a double quote.
\<close>

definition quote_free :: "string \<Rightarrow> bool" where
  "quote_free ref \<longleftrightarrow> CHR 0x22 \<notin> set ref"

definition find_species :: "string element \<Rightarrow> string \<Rightarrow> error + string element option" where
  "find_species model ref =
     (if quote_free ref
      then Inr (find_elem model
                  [Self, Child (sbml ''listOfSpecies''), Child (sbml ''species''),
                   AttrEq ''id'' ref])
      else Inl Unparsed)"

text \<open>
  The body of the loop of \<^verbatim>\<open>species_info\<close> for one alias, in the order in which the
  source evaluates it: \<^verbatim>\<open>.text\<close> of a missing activity raises at once, a missing
  \<^verbatim>\<open>species\<close> attribute makes the string concatenation raise, a missing species
  definition or annotation raises at the next \<^verbatim>\<open>.find\<close>, and missing bounds raise
  only when the dictionary is built.
\<close>

definition alias_entry ::
  "string element \<Rightarrow> string element \<Rightarrow> error + (string option \<times> species_record)" where
  "alias_entry model species =
     (case find_elem species [Self, Desc (cd ''activity'')] of
        None \<Rightarrow> Inl AttributeError
      | Some act \<Rightarrow>
          let activity = etext act;
              bound = find_elem species [Self, Desc (cd ''bounds'')]
          in (case get species ''species'' of
                None \<Rightarrow> Inl TypeError
              | Some ref \<Rightarrow>
                  (case find_species model ref of
                     Inl e \<Rightarrow> Inl e
                   | Inr None \<Rightarrow> Inl AttributeError
                   | Inr (Some sbml_species) \<Rightarrow>
                       (case find_elem sbml_species [Self, Child (sbml ''annotation'')] of
                          None \<Rightarrow> Inl AttributeError
                        | Some annot \<Rightarrow>
                            let cls = get_class (find_elem annot [Self, Desc (cd ''class'')]);
                                mods = get_mods
                                  (find_elem annot [Self, Desc (cd ''listOfModifications'')])
                            in (case bound of
                                  None \<Rightarrow> Inl AttributeError
                                | Some b \<Rightarrow>
                                    Inr (get species ''id'',
                                         \<lparr>r_activity = activity,
                                          r_x = get b ''x'', r_y = get b ''y'',
                                          r_h = get b ''h'', r_w = get b ''w'',
                                          r_transitions = [],
                                          r_name = get sbml_species ''name'',
                                          r_type = cls,
                                          r_modifications = mods\<rparr>))))))"

fun species_loop :: "string element \<Rightarrow> table \<Rightarrow> string element list \<Rightarrow> error + table" where
  "species_loop model nameconv [] = Inr nameconv"
| "species_loop model nameconv (species # rest) =
     (case alias_entry model species of
        Inl e \<Rightarrow> Inl e
      | Inr (k, v) \<Rightarrow> species_loop model (setitem k v nameconv) rest)"

definition species_info :: "string element \<Rightarrow> error + table" where
  "species_info model = species_loop model [] (aliases model)"

section \<open>Transition extraction\<close>

text \<open>\<^verbatim>\<open>str(v)\<close> for an optional string inside an f-string: \<^verbatim>\<open>None\<close> prints as its name.\<close>

definition py_str :: "string option \<Rightarrow> string" where
  "py_str v = (case v of None \<Rightarrow> ''None'' | Some s \<Rightarrow> s)"

text \<open>
  What \<^verbatim>\<open>get_transitions\<close> reads from one reaction element before its loop over the
  products: the tuple to store and the product aliases. A reaction without the
  CellDesigner extension or without a reaction type raises.
\<close>

definition reaction_parts ::
  "string element \<Rightarrow> error + (influence \<times> string option list)" where
  "reaction_parts reaction =
     (case find_elem reaction [Self, Child (sbml ''annotation''), Child (cd ''extension'')] of
        None \<Rightarrow> Inl AttributeError
      | Some annot \<Rightarrow>
          (case find_elem annot [Self, Child (cd ''reactionType'')] of
             None \<Rightarrow> Inl AttributeError
           | Some rt \<Rightarrow>
               let rtype = etext rt;
                   reacs = map (\<lambda>reac. get reac ''alias'')
                     (findall annot
                        [Self, Child (cd ''baseReactants''), Child (cd ''baseReactant'')]);
                   prods = map (\<lambda>prod. get prod ''alias'')
                     (findall annot
                        [Self, Child (cd ''baseProducts''), Child (cd ''baseProduct'')]);
                   mods = map (\<lambda>md. (get md ''type'', get md ''aliases''))
                     (findall annot
                        [Self, Child (cd ''listOfModification''), Child (cd ''modification'')])
               in Inr ((rtype, reacs, mods), prods)))"

text \<open>\<^verbatim>\<open>info[species]['transitions'].append(t)\<close> for a key of the table.\<close>

fun append_transition :: "string option \<Rightarrow> influence \<Rightarrow> table \<Rightarrow> table" where
  "append_transition species t [] = []"
| "append_transition species t ((k, d) # info) =
     (if k = species then (k, d\<lparr>r_transitions := r_transitions d @ [t]\<rparr>) # info
      else (k, d) # append_transition species t info)"

text \<open>
  The loop over \<^verbatim>\<open>prods\<close>. The state is the table and the lines printed so far.
\<close>

fun products_loop ::
  "influence \<Rightarrow> string option list \<Rightarrow> table \<times> string list \<Rightarrow> table \<times> string list" where
  "products_loop t [] (info, out) = (info, out)"
| "products_loop t (species # rest) (info, out) =
     (if species \<in> set (map fst info)
      then products_loop t rest (append_transition species t info, out)
      else products_loop t rest
             (info, out @ [''ignoring unknown species '' @ py_str species]))"

fun reactions_loop ::
  "string element list \<Rightarrow> table \<times> string list \<Rightarrow> string list \<times> (error + table)" where
  "reactions_loop [] (info, out) = (out, Inr info)"
| "reactions_loop (reaction # rest) (info, out) =
     (case reaction_parts reaction of
        Inl e \<Rightarrow> (out, Inl e)
      | Inr (t, prods) \<Rightarrow> reactions_loop rest (products_loop t prods (info, out)))"

definition reactions :: "string element \<Rightarrow> string element list" where
  "reactions model = findall model [Self, Child (sbml ''listOfReactions''), Child (sbml ''reaction'')]"

text \<open>The result pairs the lines printed with the table or the exception raised.\<close>

definition get_transitions :: "string element \<Rightarrow> table \<Rightarrow> string list \<times> (error + table)" where
  "get_transitions model info = reactions_loop (reactions model) (info, [])"

text \<open>
  \<^verbatim>\<open>read_celldesigner\<close>. The file system is a function from paths to parsed documents,
  \<open>None\<close> where \<^verbatim>\<open>etree.parse\<close> raises. A root without a \<^verbatim>\<open>model\<close> child makes
  \<^verbatim>\<open>model.findall\<close> raise inside \<^verbatim>\<open>species_info\<close>.
\<close>

definition read_celldesigner ::
  "(string \<Rightarrow> string element option) \<Rightarrow> string \<Rightarrow> string list \<times> (error + table)" where
  "read_celldesigner fs filename =
     (case fs filename of
        None \<Rightarrow> ([], Inl ParseError)
      | Some root \<Rightarrow>
          if tag root \<noteq> sbml ''sbml''
          then ([''Currently limited to SBML Level 2 Version 4''], Inl (SystemExit 1))
          else (case find_elem root [Child (sbml ''model'')] of
                  None \<Rightarrow> ([], Inl AttributeError)
                | Some model \<Rightarrow>
                    (case species_info model of
                       Inl e \<Rightarrow> ([], Inl e)
                     | Inr info \<Rightarrow> get_transitions model info)))"

section \<open>Emission\<close>

text \<open>\<^verbatim>\<open>str(n)\<close> for the input counter: the decimal digits of a natural number.\<close>

definition digit :: "nat \<Rightarrow> char" where
  "digit n = char_of (48 + n)"

function str_nat :: "nat \<Rightarrow> string" where
  "str_nat n = (if n < 10 then [digit n] else str_nat (n div 10) @ [digit (n mod 10)])"
  by pat_completeness auto
termination
  by (relation "measure id") auto

declare str_nat.simps [simp del]

text \<open>\<^verbatim>\<open>etree.SubElement(parent, ...)\<close>: the new element becomes the last child.\<close>

definition SubElement :: "'v element \<Rightarrow> 'v element \<Rightarrow> 'v element" where
  "SubElement parent child =
     Element (tag parent) (attrib parent) (etext parent) (children parent @ [child])"

text \<open>
  The type tag the emitter pairs with a contributing alias: the position that
  \<^verbatim>\<open>enumerate\<close> gives a reactant, or the \<^verbatim>\<open>type\<close> attribute of a modification.
\<close>

datatype modtype = Index nat | Tag "string option"

text \<open>\<^verbatim>\<open>chain(enumerate(reaction[1]), reaction[2])\<close>.\<close>

definition chain_inputs :: "influence \<Rightarrow> (modtype \<times> string option) list" where
  "chain_inputs reaction =
     (case reaction of (rtype, reacs, mods) \<Rightarrow>
        map (\<lambda>(i, modifier). (Index i, modifier)) (enumerate 0 reacs) @
        map (\<lambda>(ty, modifier). (Tag ty, modifier)) mods)"

definition sign_of :: "modtype \<Rightarrow> string" where
  "sign_of modtype = (if modtype = Tag (Some ''INHIBITION'') then ''negative'' else ''positive'')"

definition input_element ::
  "string option \<Rightarrow> nat \<Rightarrow> modtype \<Rightarrow> string option \<Rightarrow> string option element" where
  "input_element species index modtype modifier =
     Element ''qual:input''
       [(''qual:qualitativeSpecies'', modifier),
        (''qual:transitionEffect'', Some ''none''),
        (''qual:sign'', Some (sign_of modtype)),
        (''qual:id'', Some (''tr_'' @ py_str species @ ''_in_'' @ str_nat index))]
       None []"

text \<open>The inner loop: the state is the input list element and the counter.\<close>

fun inputs_loop ::
  "string option \<Rightarrow> (modtype \<times> string option) list \<Rightarrow> string option element \<times> nat \<Rightarrow>
   string option element \<times> nat" where
  "inputs_loop species [] (ilist, index) = (ilist, index)"
| "inputs_loop species ((modtype, modifier) # rest) (ilist, index) =
     inputs_loop species rest
       (SubElement ilist (input_element species index modtype modifier), index + 1)"

text \<open>The loop over \<^verbatim>\<open>data['transitions']\<close>; the counter is not reset in between.\<close>

fun influences_loop ::
  "string option \<Rightarrow> influence list \<Rightarrow> string option element \<times> nat \<Rightarrow>
   string option element \<times> nat" where
  "influences_loop species [] st = st"
| "influences_loop species (reaction # rest) st =
     influences_loop species rest (inputs_loop species (chain_inputs reaction) st)"

definition transition_element :: "string option \<Rightarrow> species_record \<Rightarrow> string option element" where
  "transition_element species data =
     (let (ilist, index) =
            influences_loop species (r_transitions data)
              (Element ''qual:listOfInputs'' [] None [], 0);
          olist = Element ''qual:listOfOutputs'' [] None
            [Element ''qual:output''
               [(''qual:qualitativeSpecies'', species),
                (''qual:transitionEffect'', Some ''assignmentLevel''),
                (''qual:id'', Some (''tr_'' @ py_str species @ ''_out''))]
               None []];
          flist = Element ''qual:listOfFunctionTerms'' [] None
            [Element ''qual:defaultTerm'' [(''qual:resultLevel'', Some ''0'')] None []]
      in Element ''qual:transition'' [(''qual:id'', Some (''tr_'' @ py_str species))] None
           [ilist, olist, flist])"

fun add_transitions :: "string option element \<Rightarrow> table \<Rightarrow> string option element" where
  "add_transitions tlist [] = tlist"
| "add_transitions tlist ((species, data) # info) =
     add_transitions (SubElement tlist (transition_element species data)) info"

definition species_glyph :: "string option \<Rightarrow> species_record \<Rightarrow> string option element" where
  "species_glyph species data =
     Element ''layout:speciesGlyph'' [(''layout:species'', species)] None
       [Element ''layout:boundingBox'' [] None
          [Element ''layout:position''
             [(''layout:x'', r_x data), (''layout:y'', r_y data)] None [],
           Element ''layout:dimensions''
             [(''layout:height'', r_h data), (''layout:width'', r_w data)] None []]]"

definition qualitative_species :: "string option \<Rightarrow> species_record \<Rightarrow> string option element" where
  "qualitative_species species data =
     Element ''qual:qualitativeSpecies''
       [(''qual:maxLevel'', Some ''1''),
        (''qual:compartment'', Some ''comp1''),
        (''qual:name'', r_name data),
        (''qual:constant'', Some ''false''),
        (''qual:id'', species)]
       None []"

text \<open>The loop of \<^verbatim>\<open>add_positions\<close>: the state is the glyph list and \<^verbatim>\<open>qlist\<close>.\<close>

fun positions_loop ::
  "table \<Rightarrow> string option element \<times> string option element \<Rightarrow>
   string option element \<times> string option element" where
  "positions_loop [] (llist, qlist) = (llist, qlist)"
| "positions_loop ((species, data) # info) (llist, qlist) =
     positions_loop info
       (SubElement llist (species_glyph species data),
        SubElement qlist (qualitative_species species data))"

definition add_positions ::
  "string option element \<Rightarrow> string option element \<Rightarrow> table \<Rightarrow>
   string option element \<times> string option element" where
  "add_positions layout qlist info =
     (let (llist, qlist') =
            positions_loop info (Element ''layout:listOfSpeciesGlyphs'' [] None [], qlist)
      in (SubElement layout llist, qlist'))"

text \<open>The tree that \<^verbatim>\<open>write_qual\<close> builds before it writes it.\<close>

definition qual_tree :: "table \<Rightarrow> string option element" where
  "qual_tree info =
     (let clist = Element ''listOfCompartments'' [] None
            [Element ''compartment'' [(''constant'', Some ''true''), (''id'', Some ''comp1'')]
               None []];
          (layout, qlist) =
            add_positions (Element ''layout:layout'' [] None [])
              (Element ''qual:listOfQualitativeSpecies'' [] None []) info;
          llist = Element ''layout:listOfLayouts'' [] None [layout];
          tlist = add_transitions (Element ''qual:listOfTransitions'' [] None []) info;
          model = Element ''model'' [(''id'', Some ''model_id'')] None
            [clist, llist, qlist, tlist]
      in Element ''sbml''
           [(''level'', Some ''3''), (''version'', Some ''1''),
            (''layout:required'', Some ''false''),
            (''xmlns'', Some ''http://www.sbml.org/sbml/level3/version1/core''),
            (''qual:required'', Some ''true''),
            (''xmlns:layout'',
             Some ''http://www.sbml.org/sbml/level3/version1/layout/version1''),
            (''xmlns:qual'', Some ''http://www.sbml.org/sbml/level3/version1/qual/version1'')]
           None [model])"

text \<open>
  \<^verbatim>\<open>tree.write\<close> opens the output path and then serialises the tree; the serialiser of
  \<^verbatim>\<open>ElementTree\<close> raises \<^verbatim>\<open>TypeError\<close> at the first attribute whose value is \<^verbatim>\<open>None\<close>.
  The written file is represented by the tree it serialises.
\<close>

definition serializable :: "string option element \<Rightarrow> bool" where
  "serializable e = list_all (\<lambda>d. list_all (\<lambda>(k, v). v \<noteq> None) (attrib d)) (iter e)"

datatype outfile =
  Untouched | Truncated string | Written string "string option element"

definition write_qual :: "string \<Rightarrow> table \<Rightarrow> error option \<times> outfile" where
  "write_qual filename info =
     (let root = qual_tree info
      in if serializable root then (None, Written filename root)
         else (Some TypeError, Truncated filename))"

section \<open>The command line\<close>

text \<open>
  A run of \<^verbatim>\<open>main\<close>: the lines printed, the exception that ended it (\<open>None\<close> for a
  normal end) and what happened to the output path.
\<close>

record run =
  stdout :: "string list"
  raised :: "error option"
  written :: outfile

definition main :: "string list \<Rightarrow> (string \<Rightarrow> string element option) \<Rightarrow> run" where
  "main argv fs =
     (if length argv \<noteq> 3
      then (case argv of
              [] \<Rightarrow> \<lparr>stdout = [], raised = Some IndexError, written = Untouched\<rparr>
            | a0 # _ \<Rightarrow>
                \<lparr>stdout = [''Usage: [python3] '' @ a0 @ '' '' @
                            ''<celldesignerinfile.xml> <sbmlqualoutfile.xml>''],
                 raised = Some (SystemExit 1), written = Untouched\<rparr>)
      else
        let celldesignerfile = argv ! 1;
            line = ''parsing '' @ celldesignerfile @ [CHR 0xE2, CHR 0x80, CHR 0xA6];
            (lines, r) = read_celldesigner fs celldesignerfile
        in (case r of
              Inl e \<Rightarrow> \<lparr>stdout = line # lines, raised = Some e, written = Untouched\<rparr>
            | Inr info \<Rightarrow>
                (case write_qual (argv ! 2) info of
                   (e, f) \<Rightarrow> \<lparr>stdout = line # lines, raised = e, written = f\<rparr>)))"

section \<open>Reading the emitted document\<close>

text \<open>
  Observations on an emitted tree, used to state what it contains: the children with
  a given tag, the transition and qualitative-species elements of the document, and
  the inputs, outputs and function terms of a transition.
\<close>

definition sub :: "string \<Rightarrow> 'v element \<Rightarrow> 'v element list" where
  "sub t e = filter (\<lambda>c. tag c = t) (children e)"

definition doc_transitions :: "string option element \<Rightarrow> string option element list" where
  "doc_transitions root =
     concat (map children (concat (map (sub ''qual:listOfTransitions'') (sub ''model'' root))))"

definition doc_qual_species :: "string option element \<Rightarrow> string option element list" where
  "doc_qual_species root =
     concat (map children
       (concat (map (sub ''qual:listOfQualitativeSpecies'') (sub ''model'' root))))"

definition transition_inputs :: "string option element \<Rightarrow> string option element list" where
  "transition_inputs t = concat (map children (sub ''qual:listOfInputs'' t))"

definition transition_outputs :: "string option element \<Rightarrow> string option element list" where
  "transition_outputs t = concat (map children (sub ''qual:listOfOutputs'' t))"

definition transition_terms :: "string option element \<Rightarrow> string option element list" where
  "transition_terms t = concat (map children (sub ''qual:listOfFunctionTerms'' t))"

text \<open>
  What one reaction element contributes to the species with key \<open>k\<close>: its tuple, once
  per occurrence of \<open>k\<close> among its base products; nothing when the reaction does not
  parse.
\<close>

definition contributed :: "string option \<Rightarrow> string element \<Rightarrow> influence list" where
  "contributed k reaction =
     (case reaction_parts reaction of
        Inl e \<Rightarrow> []
      | Inr (t, prods) \<Rightarrow> replicate (count_list prods k) t)"

text \<open>The diagnostic lines of one reaction, given the keys of the table.\<close>

definition diagnostics :: "string option list \<Rightarrow> string element \<Rightarrow> string list" where
  "diagnostics keys reaction =
     (case reaction_parts reaction of
        Inl e \<Rightarrow> []
      | Inr (t, prods) \<Rightarrow>
          map (\<lambda>p. ''ignoring unknown species '' @ py_str p)
            (filter (\<lambda>p. p \<notin> set keys) prods))"

text \<open>
  The table with further influences appended to each entry's \<^verbatim>\<open>transitions\<close> list,
  \<open>f k\<close> for the entry with key \<open>k\<close>: the form in which the effect of transition
  extraction is stated.
\<close>

definition extend_transitions :: "(string option \<Rightarrow> influence list) \<Rightarrow> table \<Rightarrow> table" where
  "extend_transitions f info = map (\<lambda>(k, d). (k, d\<lparr>r_transitions := r_transitions d @ f k\<rparr>)) info"

text \<open>
  The annotation element that \<^verbatim>\<open>species_info\<close> reaches for an alias, through the
  alias's \<^verbatim>\<open>species\<close> attribute and the species definition with that id; the
  condition that the species references of the aliases processed hold no double quote
  (an alias without the attribute has no reference); and the condition that the
  lookups which the source does not guard all succeed for an alias whose reference
  holds no double quote.
\<close>

definition alias_annotation :: "string element \<Rightarrow> string element \<Rightarrow> string element option" where
  "alias_annotation model species =
     (case get species ''species'' of
        None \<Rightarrow> None
      | Some ref \<Rightarrow>
          (case find_species model ref of
             Inl e \<Rightarrow> None
           | Inr None \<Rightarrow> None
           | Inr (Some sbml_species) \<Rightarrow>
               find_elem sbml_species [Self, Child (sbml ''annotation'')]))"

definition quote_free_reference :: "string element \<Rightarrow> bool" where
  "quote_free_reference species =
     (case get species ''species'' of None \<Rightarrow> True | Some ref \<Rightarrow> quote_free ref)"

definition quote_free_references :: "string element \<Rightarrow> bool" where
  "quote_free_references model = list_all quote_free_reference (aliases model)"

definition lookups_ok :: "string element \<Rightarrow> string element \<Rightarrow> bool" where
  "lookups_ok model species \<longleftrightarrow>
     quote_free_reference species \<and>
     find_elem species [Self, Desc (cd ''activity'')] \<noteq> None \<and>
     find_elem species [Self, Desc (cd ''bounds'')] \<noteq> None \<and>
     alias_annotation model species \<noteq> None"

section \<open>Example documents\<close>

text \<open>
  A species alias placed at a fixed position, and a species definition whose
  annotation holds the given identity elements.
\<close>

definition alias_elem ::
  "string \<Rightarrow> string \<Rightarrow> string \<Rightarrow> (string \<times> string) list \<Rightarrow> string element" where
  "alias_elem t i s extra =
     Element (cd t) ([(''id'', i), (''species'', s)] @ extra) None
       [Element (cd ''activity'') [] (Some ''inactive'') [],
        Element (cd ''bounds'')
          [(''x'', ''10''), (''y'', ''20''), (''w'', ''80''), (''h'', ''40'')] None []]"

definition species_elem ::
  "string \<Rightarrow> (string \<times> string) list \<Rightarrow> string element list \<Rightarrow> string element" where
  "species_elem i extra ident =
     Element (sbml ''species'') ((''id'', i) # extra) None
       [Element (sbml ''annotation'') [] None
          [Element (cd ''extension'') [] None
             [Element (cd ''speciesIdentity'') [] None ident]]]"

text \<open>
  One reaction with base reactant \<open>sa1\<close>, base products \<open>sa2\<close> and the unknown \<open>sa9\<close>,
  an inhibiting modifier \<open>csa1\<close> and a catalysing modifier \<open>sa1\<close>.
\<close>

definition ex_reaction :: "string element" where
  "ex_reaction =
     Element (sbml ''reaction'') [(''id'', ''re1'')] None
       [Element (sbml ''annotation'') [] None
          [Element (cd ''extension'') [] None
             [Element (cd ''reactionType'') [] (Some ''STATE_TRANSITION'') [],
              Element (cd ''baseReactants'') [] None
                [Element (cd ''baseReactant'') [(''alias'', ''sa1'')] None []],
              Element (cd ''baseProducts'') [] None
                [Element (cd ''baseProduct'') [(''alias'', ''sa2'')] None [],
                 Element (cd ''baseProduct'') [(''alias'', ''sa9'')] None []],
              Element (cd ''listOfModification'') [] None
                [Element (cd ''modification'')
                   [(''type'', ''INHIBITION''), (''aliases'', ''csa1'')] None [],
                 Element (cd ''modification'')
                   [(''type'', ''CATALYSIS''), (''aliases'', ''sa1'')] None []]]]]"

text \<open>
  A model with a complex alias \<open>csa1\<close>, simple aliases \<open>sa1\<close> and \<open>sa2\<close> in a
  compartment, and a simple alias \<open>sa3\<close> outside any compartment. The species \<open>s1\<close>
  has neither a class nor a modification list.
\<close>

definition ex_model :: "string element" where
  "ex_model =
     Element (sbml ''model'') [(''id'', ''m'')] None
       [Element (sbml ''annotation'') [] None
          [Element (cd ''extension'') [] None
             [Element (cd ''listOfComplexSpeciesAliases'') [] None
                [alias_elem ''complexSpeciesAlias'' ''csa1'' ''s3''
                   [(''compartmentAlias'', ''ca1'')]],
              Element (cd ''listOfSpeciesAliases'') [] None
                [alias_elem ''speciesAlias'' ''sa1'' ''s1'' [(''compartmentAlias'', ''ca1'')],
                 alias_elem ''speciesAlias'' ''sa3'' ''s1'' [],
                 alias_elem ''speciesAlias'' ''sa2'' ''s2'' [(''compartmentAlias'', ''ca1'')]]]],
        Element (sbml ''listOfSpecies'') [] None
          [species_elem ''s1'' [(''name'', ''A'')] [],
           species_elem ''s2'' [(''name'', ''B'')]
             [Element (cd ''class'') [] (Some ''GENE'') [],
              Element (cd ''state'') [] None
                [Element (cd ''listOfModifications'') [] None
                   [Element (cd ''modification'')
                      [(''residue'', ''rs1''), (''state'', ''phosphorylated'')] None []]]],
           species_elem ''s3'' [(''name'', ''C'')]
             [Element (cd ''class'') [] (Some ''COMPLEX'') []]],
        Element (sbml ''listOfReactions'') [] None [ex_reaction]]"

definition ex_root :: "string element" where
  "ex_root = Element (sbml ''sbml'') [(''level'', ''2''), (''version'', ''4'')] None [ex_model]"

text \<open>The table that the two extractors build from \<open>ex_model\<close>.\<close>

definition ex_record :: "string \<Rightarrow> string \<Rightarrow> string option list \<Rightarrow> influence list \<Rightarrow> species_record" where
  "ex_record n c ms ts =
     \<lparr>r_activity = Some ''inactive'', r_x = Some ''10'', r_y = Some ''20'',
      r_h = Some ''40'', r_w = Some ''80'', r_transitions = ts, r_name = Some n,
      r_type = Some c, r_modifications = ms\<rparr>"

definition ex_influence :: influence where
  "ex_influence =
     (Some ''STATE_TRANSITION'', [Some ''sa1''],
      [(Some ''INHIBITION'', Some ''csa1''), (Some ''CATALYSIS'', Some ''sa1'')])"

definition ex_info0 :: table where
  "ex_info0 =
     [(Some ''csa1'', ex_record ''C'' ''COMPLEX'' [] []),
      (Some ''sa1'', ex_record ''A'' ''PROTEIN'' [] []),
      (Some ''sa2'', ex_record ''B'' ''GENE'' [Some ''phosphorylated''] [])]"

definition ex_info :: table where
  "ex_info =
     [(Some ''csa1'', ex_record ''C'' ''COMPLEX'' [] []),
      (Some ''sa1'', ex_record ''A'' ''PROTEIN'' [] []),
      (Some ''sa2'', ex_record ''B'' ''GENE'' [Some ''phosphorylated''] [ex_influence])]"

text \<open>
  A model with two complex aliases, \<open>csa1\<close> outside any compartment and \<open>csa2\<close> in one,
  and two simple aliases, \<open>sa1\<close> in a compartment and \<open>sa3\<close> outside any; and the table
  that species extraction builds from it.
\<close>

definition cx_model :: "string element" where
  "cx_model =
     Element (sbml ''model'') [(''id'', ''m'')] None
       [Element (sbml ''annotation'') [] None
          [Element (cd ''extension'') [] None
             [Element (cd ''listOfComplexSpeciesAliases'') [] None
                [alias_elem ''complexSpeciesAlias'' ''csa1'' ''s3'' [],
                 alias_elem ''complexSpeciesAlias'' ''csa2'' ''s3''
                   [(''compartmentAlias'', ''ca1'')]],
              Element (cd ''listOfSpeciesAliases'') [] None
                [alias_elem ''speciesAlias'' ''sa1'' ''s1'' [(''compartmentAlias'', ''ca1'')],
                 alias_elem ''speciesAlias'' ''sa3'' ''s1'' []]]],
        Element (sbml ''listOfSpecies'') [] None
          [species_elem ''s1'' [(''name'', ''A'')] [],
           species_elem ''s3'' [(''name'', ''C'')]
             [Element (cd ''class'') [] (Some ''COMPLEX'') []]]]"

definition cx_info :: table where
  "cx_info =
     [(Some ''csa2'', ex_record ''C'' ''COMPLEX'' [] []),
      (Some ''sa1'', ex_record ''A'' ''PROTEIN'' [] [])]"

text \<open>
  A model with the single alias \<open>sa1\<close> of species \<open>s1\<close>, given the children of the
  alias and the species list.
\<close>

definition mini_model :: "string element list \<Rightarrow> string element list \<Rightarrow> string element" where
  "mini_model alias_children species_list =
     Element (sbml ''model'') [(''id'', ''m'')] None
       [Element (sbml ''annotation'') [] None
          [Element (cd ''extension'') [] None
             [Element (cd ''listOfSpeciesAliases'') [] None
                [Element (cd ''speciesAlias'')
                   [(''id'', ''sa1''), (''species'', ''s1''), (''compartmentAlias'', ''ca1'')]
                   None alias_children]]],
        Element (sbml ''listOfSpecies'') [] None species_list]"

definition ex_activity :: "string element" where
  "ex_activity = Element (cd ''activity'') [] (Some ''inactive'') []"

definition ex_bounds :: "string element" where
  "ex_bounds =
     Element (cd ''bounds'')
       [(''x'', ''10''), (''y'', ''20''), (''w'', ''80''), (''h'', ''40'')] None []"

text \<open>The model \<open>mini_model\<close> with a complete alias whose species has no name.\<close>

definition noname_root :: "string element" where
  "noname_root =
     Element (sbml ''sbml'') [(''level'', ''2''), (''version'', ''4'')] None
       [mini_model [ex_activity, ex_bounds] [species_elem ''s1'' [] []]]"

definition noname_info :: table where
  "noname_info =
     [(Some ''sa1'',
       \<lparr>r_activity = Some ''inactive'', r_x = Some ''10'', r_y = Some ''20'',
        r_h = Some ''40'', r_w = Some ''80'', r_transitions = [], r_name = None,
        r_type = Some ''PROTEIN'', r_modifications = []\<rparr>)]"

text \<open>A document of the expected schema around a given model.\<close>

definition sbml_root :: "string element \<Rightarrow> string element" where
  "sbml_root model =
     Element (sbml ''sbml'') [(''level'', ''2''), (''version'', ''4'')] None [model]"

text \<open>A document of another schema, and file systems holding one input file.\<close>

definition other_root :: "string element" where
  "other_root = Element ''html'' [] None [ex_model]"

definition one_file :: "string \<Rightarrow> string element \<Rightarrow> string \<Rightarrow> string element option" where
  "one_file name root p = (if p = name then Some root else None)"

definition ex_argv :: "string list" where
  "ex_argv = [''celldesigner2qual.py'', ''in.xml'', ''out.xml'']"

section \<open>The emitter in closed form\<close>

lemma inputs_loop_eq:
  "inputs_loop species xs (ilist, index) =
     (Element (tag ilist) (attrib ilist) (etext ilist)
        (children ilist @
         map (\<lambda>(i, (mt, m)). input_element species i mt m) (enumerate index xs)),
      index + length xs)"
proof (induction xs arbitrary: ilist index)
  case Nil
  then show ?case by simp
next
  case (Cons x xs)
  obtain mt m where x: "x = (mt, m)" by (cases x)
  show ?case
    unfolding x by (simp add: Cons.IH SubElement_def)
qed

lemma influences_loop_eq:
  "influences_loop species rs (ilist, index) =
     (Element (tag ilist) (attrib ilist) (etext ilist)
        (children ilist @
         map (\<lambda>(i, (mt, m)). input_element species i mt m)
           (enumerate index (concat (map chain_inputs rs)))),
      index + length (concat (map chain_inputs rs)))"
proof (induction rs arbitrary: ilist index)
  case Nil
  then show ?case by simp
next
  case (Cons r rs)
  show ?case
    by (simp add: inputs_loop_eq Cons.IH enumerate_append_eq add.assoc)
qed

lemma transition_inputs_eq:
  "transition_inputs (transition_element species data) =
     map (\<lambda>(i, (mt, m)). input_element species i mt m)
       (enumerate 0 (concat (map chain_inputs (r_transitions data))))"
  by (simp add: transition_inputs_def transition_element_def influences_loop_eq sub_def)

lemma transition_outputs_eq:
  "transition_outputs (transition_element species data) =
     [Element ''qual:output''
        [(''qual:qualitativeSpecies'', species),
         (''qual:transitionEffect'', Some ''assignmentLevel''),
         (''qual:id'', Some (''tr_'' @ py_str species @ ''_out''))]
        None []]"
  by (simp add: transition_outputs_def transition_element_def influences_loop_eq sub_def)

lemma transition_terms_eq:
  "transition_terms (transition_element species data) =
     [Element ''qual:defaultTerm'' [(''qual:resultLevel'', Some ''0'')] None []]"
  by (simp add: transition_terms_def transition_element_def influences_loop_eq sub_def)

lemma add_transitions_eq:
  "add_transitions tlist info =
     Element (tag tlist) (attrib tlist) (etext tlist)
       (children tlist @ map (\<lambda>(species, data). transition_element species data) info)"
proof (induction info arbitrary: tlist)
  case Nil
  then show ?case by simp
next
  case (Cons p info)
  obtain k d where p: "p = (k, d)" by (cases p)
  show ?case unfolding p by (simp add: Cons.IH SubElement_def)
qed

lemma positions_loop_eq:
  "positions_loop info (llist, qlist) =
     (Element (tag llist) (attrib llist) (etext llist)
        (children llist @ map (\<lambda>(species, data). species_glyph species data) info),
      Element (tag qlist) (attrib qlist) (etext qlist)
        (children qlist @ map (\<lambda>(species, data). qualitative_species species data) info))"
proof (induction info arbitrary: llist qlist)
  case Nil
  then show ?case by simp
next
  case (Cons p info)
  obtain k d where p: "p = (k, d)" by (cases p)
  show ?case unfolding p by (simp add: Cons.IH SubElement_def)
qed

lemma doc_transitions_eq:
  "doc_transitions (qual_tree info) =
     map (\<lambda>(species, data). transition_element species data) info"
  by (simp add: doc_transitions_def qual_tree_def add_positions_def positions_loop_eq
      add_transitions_eq sub_def SubElement_def)

lemma doc_qual_species_eq:
  "doc_qual_species (qual_tree info) =
     map (\<lambda>(species, data). qualitative_species species data) info"
  by (simp add: doc_qual_species_def qual_tree_def add_positions_def positions_loop_eq
      add_transitions_eq sub_def SubElement_def)

lemma input_element_attrs:
  "get (input_element species i mt m) ''qual:qualitativeSpecies'' = Some m"
  "get (input_element species i mt m) ''qual:sign'' = Some (Some (sign_of mt))"
  "get (input_element species i mt m) ''qual:id'' =
     Some (Some (''tr_'' @ py_str species @ ''_in_'' @ str_nat i))"
  by (simp_all add: input_element_def get_def)

lemma nth_inputs:
  assumes "i < length xs"
  shows "map (\<lambda>(i, (mt, m)). input_element species i mt m) (enumerate 0 xs) ! i =
           input_element species i (fst (xs ! i)) (snd (xs ! i))"
  using assms by (simp add: nth_enumerate_eq split_beta)

lemma unique_key:
  assumes "distinct (map fst info)" and "(k, d) \<in> set info"
  shows "filter (\<lambda>p. fst p = k) info = [(k, d)]"
  using assms
proof (induction info)
  case Nil
  then show ?case by simp
next
  case (Cons p info)
  show ?case
  proof (cases "p = (k, d)")
    case True
    have "filter (\<lambda>p. fst p = k) info = []"
      using Cons.prems(1) True by (auto simp: filter_empty_conv)
    with True show ?thesis by simp
  next
    case False
    with Cons.prems have in_rest: "(k, d) \<in> set info" by simp
    then have "k \<in> fst ` set info" by force
    with Cons.prems(1) have "fst p \<noteq> k" by auto
    with Cons.IH Cons.prems(1) in_rest show ?thesis by simp
  qed
qed

section \<open>Properties of the emitted transitions\<close>

text \<open>
  C1. Every transition of the emitted document is the transition of one entry of the
  table, and its inputs are, position by position, the contributing aliases of that
  entry's reactions (\<open>chain_inputs\<close>: the base reactants tagged with their position,
  then the modifiers tagged with their type). The sign of an input is
  \<^verbatim>\<open>negative\<close> exactly when the tag of its alias is the string \<^verbatim>\<open>INHIBITION\<close>, and
  \<^verbatim>\<open>positive\<close> otherwise; an input that comes from a base reactant is always
  \<^verbatim>\<open>positive\<close>.
\<close>

theorem sign_rule:
  assumes "t \<in> set (doc_transitions (qual_tree info))"
  shows "\<exists>species data. (species, data) \<in> set info \<and> t = transition_element species data \<and>
           (let contribs = concat (map chain_inputs (r_transitions data));
                ins = transition_inputs t
            in length ins = length contribs \<and>
               (\<forall>i < length contribs.
                  get (ins ! i) ''qual:qualitativeSpecies'' = Some (snd (contribs ! i)) \<and>
                  (get (ins ! i) ''qual:sign'' = Some (Some ''negative'') \<longleftrightarrow>
                     fst (contribs ! i) = Tag (Some ''INHIBITION'')) \<and>
                  (get (ins ! i) ''qual:sign'' = Some (Some ''positive'') \<longleftrightarrow>
                     fst (contribs ! i) \<noteq> Tag (Some ''INHIBITION'')) \<and>
                  (\<forall>n. fst (contribs ! i) = Index n \<longrightarrow>
                     get (ins ! i) ''qual:sign'' = Some (Some ''positive''))))"
proof -
  from assms obtain species data where
    mem: "(species, data) \<in> set info" and t: "t = transition_element species data"
    by (auto simp: doc_transitions_eq)
  let ?contribs = "concat (map chain_inputs (r_transitions data))"
  have len: "length (transition_inputs t) = length ?contribs"
    by (simp add: t transition_inputs_eq)
  have each: "get (transition_inputs t ! i) ''qual:qualitativeSpecies'' =
                Some (snd (?contribs ! i)) \<and>
              get (transition_inputs t ! i) ''qual:sign'' =
                Some (Some (sign_of (fst (?contribs ! i))))"
    if "i < length ?contribs" for i
    using that unfolding t transition_inputs_eq
    by (simp only: nth_inputs input_element_attrs)
  have signs: "(sign_of mt = ''negative'' \<longleftrightarrow> mt = Tag (Some ''INHIBITION'')) \<and>
               (sign_of mt = ''positive'' \<longleftrightarrow> mt \<noteq> Tag (Some ''INHIBITION'')) \<and>
               (\<forall>n. mt = Index n \<longrightarrow> sign_of mt = ''positive'')" for mt
    by (simp add: sign_of_def)
  have per: "get (transition_inputs t ! i) ''qual:qualitativeSpecies'' =
               Some (snd (?contribs ! i)) \<and>
             (get (transition_inputs t ! i) ''qual:sign'' = Some (Some ''negative'') \<longleftrightarrow>
                fst (?contribs ! i) = Tag (Some ''INHIBITION'')) \<and>
             (get (transition_inputs t ! i) ''qual:sign'' = Some (Some ''positive'') \<longleftrightarrow>
                fst (?contribs ! i) \<noteq> Tag (Some ''INHIBITION'')) \<and>
             (\<forall>n. fst (?contribs ! i) = Index n \<longrightarrow>
                get (transition_inputs t ! i) ''qual:sign'' = Some (Some ''positive''))"
    if "i < length ?contribs" for i
    using each [OF that] signs [of "fst (?contribs ! i)"] by simp
  show ?thesis
    unfolding Let_def
    by (rule exI [of _ species], rule exI [of _ data]) (use mem t len per in blast)
qed

theorem sign_rule_witness:
  "transition_element (Some ''sa2'')
      (ex_record ''B'' ''GENE'' [Some ''phosphorylated''] [ex_influence])
     \<in> set (doc_transitions (qual_tree ex_info)) \<and>
   (\<exists>species data. (species, data) \<in> set ex_info \<and>
      transition_element (Some ''sa2'')
        (ex_record ''B'' ''GENE'' [Some ''phosphorylated''] [ex_influence]) =
        transition_element species data \<and>
      (let contribs = concat (map chain_inputs (r_transitions data));
           ins = transition_inputs
             (transition_element (Some ''sa2'')
                (ex_record ''B'' ''GENE'' [Some ''phosphorylated''] [ex_influence]))
       in length ins = length contribs \<and>
          (\<forall>i < length contribs.
             get (ins ! i) ''qual:qualitativeSpecies'' = Some (snd (contribs ! i)) \<and>
             (get (ins ! i) ''qual:sign'' = Some (Some ''negative'') \<longleftrightarrow>
                fst (contribs ! i) = Tag (Some ''INHIBITION'')) \<and>
             (get (ins ! i) ''qual:sign'' = Some (Some ''positive'') \<longleftrightarrow>
                fst (contribs ! i) \<noteq> Tag (Some ''INHIBITION'')) \<and>
             (\<forall>n. fst (contribs ! i) = Index n \<longrightarrow>
                get (ins ! i) ''qual:sign'' = Some (Some ''positive'')))))"
proof -
  have h: "transition_element (Some ''sa2'')
             (ex_record ''B'' ''GENE'' [Some ''phosphorylated''] [ex_influence])
           \<in> set (doc_transitions (qual_tree ex_info))"
    by (simp add: doc_transitions_eq ex_info_def)
  show ?thesis
    by (rule conjI [OF h sign_rule [OF h]])
qed

text \<open>
  The signs in the example: the reactant \<open>sa1\<close> is positive, the inhibiting modifier
  \<open>csa1\<close> negative, the catalysing modifier \<open>sa1\<close> positive.
\<close>

lemma example_signs:
  "map (\<lambda>e. (get e ''qual:qualitativeSpecies'', get e ''qual:sign'', get e ''qual:id''))
     (transition_inputs (transition_element (Some ''sa2'')
        (ex_record ''B'' ''GENE'' [Some ''phosphorylated''] [ex_influence]))) =
   [(Some (Some ''sa1''), Some (Some ''positive''), Some (Some ''tr_sa2_in_0'')),
    (Some (Some ''csa1''), Some (Some ''negative''), Some (Some ''tr_sa2_in_1'')),
    (Some (Some ''sa1''), Some (Some ''positive''), Some (Some ''tr_sa2_in_2''))]"
  by code_simp

lemma qualitative_species_attrs:
  "tag (qualitative_species k d) = ''qual:qualitativeSpecies''"
  "get (qualitative_species k d) ''qual:id'' = Some k"
  by (simp_all add: qualitative_species_def get_def)

lemma transition_element_tag:
  "tag (transition_element k d) = ''qual:transition''"
  by (simp add: transition_element_def influences_loop_eq)

lemma transition_element_output_species:
  "map (\<lambda>out. get out ''qual:qualitativeSpecies'')
     (transition_outputs (transition_element k d)) = [Some k]"
  by (simp add: transition_outputs_eq get_def)

lemma transition_element_input_list:
  "sub ''qual:listOfInputs'' (transition_element k d) =
     [Element ''qual:listOfInputs'' [] None (transition_inputs (transition_element k d))]"
  by (simp add: transition_inputs_def transition_element_def influences_loop_eq sub_def)

lemma count_one:
  assumes "distinct (map fst info)" and "(k, d) \<in> set info"
    and "\<And>k' d'. P (f k' d') \<longleftrightarrow> k' = k"
  shows "length (filter P (map (\<lambda>(k', d'). f k' d') info)) = 1"
proof -
  have "filter P (map (\<lambda>(k', d'). f k' d') info) =
          map (\<lambda>(k', d'). f k' d') (filter (\<lambda>p. fst p = k) info)"
    by (simp add: filter_map comp_def split_beta assms(3))
  then show ?thesis
    by (simp add: unique_key [OF assms(1,2)])
qed

text \<open>
  C4. For a table with distinct keys (a dictionary) and any of its entries, the
  emitted document holds exactly one qualitative-species element with that id and
  exactly one transition whose output references it. Every transition has exactly one
  output, with effect \<^verbatim>\<open>assignmentLevel\<close>, and exactly one function term, the default
  term with result level 0. When the entry's transitions list is empty, its
  transition still has its one input list, and that list is empty.
\<close>

theorem coverage_and_default_term:
  assumes "distinct (map fst info)" and "(species, data) \<in> set info"
  shows "length (filter (\<lambda>q. tag q = ''qual:qualitativeSpecies'' \<and>
                          get q ''qual:id'' = Some species)
                   (doc_qual_species (qual_tree info))) = 1 \<and>
         length (filter (\<lambda>t. tag t = ''qual:transition'' \<and>
                          map (\<lambda>out. get out ''qual:qualitativeSpecies'')
                            (transition_outputs t) = [Some species])
                   (doc_transitions (qual_tree info))) = 1 \<and>
         (\<forall>t \<in> set (doc_transitions (qual_tree info)).
            (\<exists>sp. transition_outputs t =
                    [Element ''qual:output''
                       [(''qual:qualitativeSpecies'', sp),
                        (''qual:transitionEffect'', Some ''assignmentLevel''),
                        (''qual:id'', Some (''tr_'' @ py_str sp @ ''_out''))]
                       None []]) \<and>
            transition_terms t =
              [Element ''qual:defaultTerm'' [(''qual:resultLevel'', Some ''0'')] None []] \<and>
            (map (\<lambda>out. get out ''qual:qualitativeSpecies'') (transition_outputs t) =
               [Some species] \<and> r_transitions data = [] \<longrightarrow>
             sub ''qual:listOfInputs'' t = [Element ''qual:listOfInputs'' [] None []]))"
proof (intro conjI ballI)
  show "length (filter (\<lambda>q. tag q = ''qual:qualitativeSpecies'' \<and>
                         get q ''qual:id'' = Some species)
                  (doc_qual_species (qual_tree info))) = 1"
    unfolding doc_qual_species_eq
    by (rule count_one [OF assms]) (auto simp: qualitative_species_attrs)
next
  show "length (filter (\<lambda>t. tag t = ''qual:transition'' \<and>
                         map (\<lambda>out. get out ''qual:qualitativeSpecies'')
                           (transition_outputs t) = [Some species])
                  (doc_transitions (qual_tree info))) = 1"
    unfolding doc_transitions_eq
    by (rule count_one [OF assms])
      (auto simp: transition_element_tag transition_element_output_species)
next
  fix t assume "t \<in> set (doc_transitions (qual_tree info))"
  then obtain k d where kd: "(k, d) \<in> set info" and t: "t = transition_element k d"
    by (auto simp: doc_transitions_eq)
  show "\<exists>sp. transition_outputs t =
               [Element ''qual:output''
                  [(''qual:qualitativeSpecies'', sp),
                   (''qual:transitionEffect'', Some ''assignmentLevel''),
                   (''qual:id'', Some (''tr_'' @ py_str sp @ ''_out''))]
                  None []]"
    unfolding t transition_outputs_eq by blast
  show "transition_terms t =
          [Element ''qual:defaultTerm'' [(''qual:resultLevel'', Some ''0'')] None []]"
    unfolding t by (rule transition_terms_eq)
  show "map (\<lambda>out. get out ''qual:qualitativeSpecies'') (transition_outputs t) =
          [Some species] \<and> r_transitions data = [] \<longrightarrow>
        sub ''qual:listOfInputs'' t = [Element ''qual:listOfInputs'' [] None []]"
  proof
    assume a: "map (\<lambda>out. get out ''qual:qualitativeSpecies'') (transition_outputs t) =
                 [Some species] \<and> r_transitions data = []"
    then have "k = species"
      by (simp add: t transition_element_output_species)
    with kd have "(species, d) \<in> set info" by simp
    with assms have "d = data"
      by (meson eq_key_imp_eq_value)
    with a \<open>k = species\<close> show "sub ''qual:listOfInputs'' t =
        [Element ''qual:listOfInputs'' [] None []]"
      by (simp add: t transition_element_input_list transition_inputs_eq)
  qed
qed

theorem coverage_and_default_term_witness:
  "distinct (map fst ex_info) \<and>
   (Some ''sa1'', ex_record ''A'' ''PROTEIN'' [] []) \<in> set ex_info \<and>
   length (filter (\<lambda>q. tag q = ''qual:qualitativeSpecies'' \<and>
                    get q ''qual:id'' = Some (Some ''sa1''))
             (doc_qual_species (qual_tree ex_info))) = 1 \<and>
   length (filter (\<lambda>t. tag t = ''qual:transition'' \<and>
                    map (\<lambda>out. get out ''qual:qualitativeSpecies'')
                      (transition_outputs t) = [Some (Some ''sa1'')])
             (doc_transitions (qual_tree ex_info))) = 1 \<and>
   transition_element (Some ''sa1'') (ex_record ''A'' ''PROTEIN'' [] [])
     \<in> set (doc_transitions (qual_tree ex_info)) \<and>
   r_transitions (ex_record ''A'' ''PROTEIN'' [] []) = [] \<and>
   transition_terms (transition_element (Some ''sa1'') (ex_record ''A'' ''PROTEIN'' [] [])) =
     [Element ''qual:defaultTerm'' [(''qual:resultLevel'', Some ''0'')] None []] \<and>
   sub ''qual:listOfInputs''
     (transition_element (Some ''sa1'') (ex_record ''A'' ''PROTEIN'' [] [])) =
     [Element ''qual:listOfInputs'' [] None []]"
proof -
  have h1: "distinct (map fst ex_info)"
    by (simp add: ex_info_def)
  have h2: "(Some ''sa1'', ex_record ''A'' ''PROTEIN'' [] []) \<in> set ex_info"
    by (simp add: ex_info_def)
  note th = coverage_and_default_term [OF h1 h2]
  have m: "transition_element (Some ''sa1'') (ex_record ''A'' ''PROTEIN'' [] [])
      \<in> set (doc_transitions (qual_tree ex_info))"
    unfolding doc_transitions_eq using h2 by force
  have e: "r_transitions (ex_record ''A'' ''PROTEIN'' [] []) = []"
    by (simp add: ex_record_def)
  have o: "map (\<lambda>out. get out ''qual:qualitativeSpecies'')
      (transition_outputs (transition_element (Some ''sa1'')
         (ex_record ''A'' ''PROTEIN'' [] []))) = [Some (Some ''sa1'')]"
    by (rule transition_element_output_species)
  note c1 = th [THEN conjunct1]
  note c2 = th [THEN conjunct2, THEN conjunct1]
  note b = th [THEN conjunct2, THEN conjunct2, THEN bspec, OF m]
  note terms = b [THEN conjunct2, THEN conjunct1]
  note inputs = b [THEN conjunct2, THEN conjunct2, THEN mp, OF conjI [OF o e]]
  show ?thesis
    by (rule conjI [OF h1 conjI [OF h2 conjI [OF c1 conjI [OF c2
        conjI [OF m conjI [OF e conjI [OF terms inputs]]]]]]])
qed

section \<open>Transition extraction in closed form\<close>

lemma extend_keys: "map fst (extend_transitions f info) = map fst info"
  by (induction info) (auto simp: extend_transitions_def)

lemma extend_extend: "extend_transitions g (extend_transitions f info) = extend_transitions (\<lambda>k. f k @ g k) info"
  by (induction info) (auto simp: extend_transitions_def)

lemma extend_cong:
  assumes "\<And>k. k \<in> set (map fst info) \<Longrightarrow> f k = g k"
  shows "extend_transitions f info = extend_transitions g info"
  using assms by (induction info) (auto simp: extend_transitions_def)

lemma extend_nil: "extend_transitions (\<lambda>k. []) info = info"
  by (induction info) (auto simp: extend_transitions_def)

lemma append_transition_extend:
  assumes "distinct (map fst info)"
  shows "append_transition species t info =
           extend_transitions (\<lambda>k. if k = species then [t] else []) info"
  using assms
proof (induction info)
  case Nil
  then show ?case by (simp add: extend_transitions_def)
next
  case (Cons p info)
  obtain k d where p: "p = (k, d)" by (cases p)
  show ?case
  proof (cases "k = species")
    case True
    with Cons.prems p have "\<And>k'. k' \<in> set (map fst info) \<Longrightarrow> k' \<noteq> species"
      by auto
    then have "extend_transitions (\<lambda>k. if k = species then [t] else []) info = extend_transitions (\<lambda>k. []) info"
      by (intro extend_cong) simp
    then have rest: "extend_transitions (\<lambda>k. if k = species then [t] else []) info = info"
      by (simp add: extend_nil)
    have "extend_transitions (\<lambda>k. if k = species then [t] else []) ((k, d) # info) =
            (k, d\<lparr>r_transitions := r_transitions d @ [t]\<rparr>) #
            extend_transitions (\<lambda>k. if k = species then [t] else []) info"
      using True by (simp add: extend_transitions_def)
    with True rest show ?thesis
      by (simp add: p)
  next
    case False
    have "extend_transitions (\<lambda>k. if k = species then [t] else []) ((k, d) # info) =
            (k, d) # extend_transitions (\<lambda>k. if k = species then [t] else []) info"
      using False by (simp add: extend_transitions_def)
    with False Cons show ?thesis
      by (simp add: p)
  qed
qed

lemma products_loop_eq:
  assumes "distinct (map fst info)"
  shows "products_loop t prods (info, out) =
           (extend_transitions (\<lambda>k. replicate (count_list prods k) t) info,
            out @ map (\<lambda>p. ''ignoring unknown species '' @ py_str p)
                    (filter (\<lambda>p. p \<notin> set (map fst info)) prods))"
  using assms
proof (induction prods arbitrary: info out)
  case Nil
  then show ?case by (simp add: extend_nil)
next
  case (Cons species rest)
  show ?case
  proof (cases "species \<in> set (map fst info)")
    case True
    let ?info = "extend_transitions (\<lambda>k. if k = species then [t] else []) info"
    have step: "append_transition species t info = ?info"
      by (rule append_transition_extend [OF Cons.prems])
    have keys: "map fst ?info = map fst info"
      by (rule extend_keys)
    have "products_loop t rest (?info, out) =
            (extend_transitions (\<lambda>k. replicate (count_list rest k) t) ?info,
             out @ map (\<lambda>p. ''ignoring unknown species '' @ py_str p)
                     (filter (\<lambda>p. p \<notin> set (map fst ?info)) rest))"
      by (rule Cons.IH) (simp add: keys Cons.prems)
    moreover have "extend_transitions (\<lambda>k. replicate (count_list rest k) t) ?info =
                     extend_transitions (\<lambda>k. replicate (count_list (species # rest) k) t) info"
      unfolding extend_extend by (rule extend_cong) auto
    ultimately show ?thesis
      using True by (simp add: step keys)
  next
    case False
    have "extend_transitions (\<lambda>k. replicate (count_list rest k) t) info =
            extend_transitions (\<lambda>k. replicate (count_list (species # rest) k) t) info"
      using False by (intro extend_cong) auto
    with False Cons.IH [OF Cons.prems] show ?thesis
      by simp
  qed
qed

lemma reactions_loop_eq:
  assumes "distinct (map fst info)"
    and "\<forall>r \<in> set rs. \<exists>p. reaction_parts r = Inr p"
  shows "reactions_loop rs (info, out) =
           (out @ concat (map (diagnostics (map fst info)) rs),
            Inr (extend_transitions (\<lambda>k. concat (map (contributed k) rs)) info))"
  using assms
proof (induction rs arbitrary: info out)
  case Nil
  then show ?case by (simp add: extend_nil)
next
  case (Cons r rs)
  from Cons.prems(2) obtain t prods where r: "reaction_parts r = Inr (t, prods)"
    by force
  let ?info = "extend_transitions (\<lambda>k. replicate (count_list prods k) t) info"
  have keys: "map fst ?info = map fst info"
    by (rule extend_keys)
  have "reactions_loop rs (?info, out') =
          (out' @ concat (map (diagnostics (map fst ?info)) rs),
           Inr (extend_transitions (\<lambda>k. concat (map (contributed k) rs)) ?info))" for out'
    by (rule Cons.IH) (use Cons.prems keys in auto)
  moreover have "contributed k r = replicate (count_list prods k) t" for k
    by (simp add: contributed_def r)
  moreover have "diagnostics (map fst info) r =
      map (\<lambda>p. ''ignoring unknown species '' @ py_str p)
        (filter (\<lambda>p. p \<notin> set (map fst info)) prods)"
    by (simp add: diagnostics_def r)
  ultimately show ?case
    by (simp add: r products_loop_eq [OF Cons.prems(1)] keys extend_extend)
qed

lemma reactions_loop_parsed:
  assumes "reactions_loop rs (info, out) = (out', Inr info')"
  shows "\<forall>r \<in> set rs. \<exists>p. reaction_parts r = Inr p"
  using assms
proof (induction rs arbitrary: info out)
  case Nil
  then show ?case by simp
next
  case (Cons r rs)
  show ?case
  proof (cases "reaction_parts r")
    case (Inl e)
    with Cons.prems show ?thesis by simp
  next
    case (Inr p)
    obtain t prods where p: "p = (t, prods)" by (cases p)
    obtain info1 out1 where pl: "products_loop t prods (info, out) = (info1, out1)"
      by (cases "products_loop t prods (info, out)")
    from Cons.prems have "reactions_loop rs (info1, out1) = (out', Inr info')"
      by (simp add: Inr p pl)
    from Cons.IH [OF this] Inr show ?thesis
      by (simp del: split_paired_Ex)
  qed
qed

text \<open>
  C3. For a table with distinct keys, the loop over one reaction's base products
  appends the reaction's tuple to the transitions of exactly the entries whose key is
  among the products (once per occurrence), changes no other entry, and prints one
  line for every product that is not a key. An unknown product never ends the run:
  transition extraction returns a table whenever every reaction element has its
  annotation and reaction type, and this table and the printed lines are the
  accumulated contributions and diagnostics in document order.
\<close>

theorem unknown_product_skip:
  assumes "distinct (map fst info)"
  shows "products_loop t prods (info, out) =
           (map (\<lambda>(k, d). (k, d\<lparr>r_transitions :=
                                   r_transitions d @ replicate (count_list prods k) t\<rparr>)) info,
            out @ map (\<lambda>p. ''ignoring unknown species '' @ py_str p)
                    (filter (\<lambda>p. p \<notin> set (map fst info)) prods)) \<and>
         (\<forall>k. replicate (count_list prods k) t = [] \<longleftrightarrow> k \<notin> set prods) \<and>
         ((\<forall>r \<in> set (reactions model). \<exists>p. reaction_parts r = Inr p) \<longrightarrow>
          get_transitions model info =
            (concat (map (diagnostics (map fst info)) (reactions model)),
             Inr (map (\<lambda>(k, d). (k, d\<lparr>r_transitions :=
                       r_transitions d @ concat (map (contributed k) (reactions model))\<rparr>))
                    info)))"
proof (intro conjI allI impI)
  show "products_loop t prods (info, out) =
          (map (\<lambda>(k, d). (k, d\<lparr>r_transitions :=
                                  r_transitions d @ replicate (count_list prods k) t\<rparr>)) info,
           out @ map (\<lambda>p. ''ignoring unknown species '' @ py_str p)
                   (filter (\<lambda>p. p \<notin> set (map fst info)) prods))"
    using products_loop_eq [OF assms] by (simp add: extend_transitions_def)
next
  fix k
  show "replicate (count_list prods k) t = [] \<longleftrightarrow> k \<notin> set prods"
    by (simp add: count_list_0_iff)
next
  assume "\<forall>r \<in> set (reactions model). \<exists>p. reaction_parts r = Inr p"
  from reactions_loop_eq [OF assms this, of "[]"]
  show "get_transitions model info =
          (concat (map (diagnostics (map fst info)) (reactions model)),
           Inr (map (\<lambda>(k, d). (k, d\<lparr>r_transitions :=
                     r_transitions d @ concat (map (contributed k) (reactions model))\<rparr>))
                  info))"
    by (simp add: get_transitions_def extend_transitions_def)
qed

theorem unknown_product_skip_witness:
  "distinct (map fst ex_info0) \<and>
   map reaction_parts (reactions ex_model) =
     [Inr (ex_influence, [Some ''sa2'', Some ''sa9''])] \<and>
   products_loop ex_influence [Some ''sa2'', Some ''sa9''] (ex_info0, []) =
     (ex_info, [''ignoring unknown species sa9'']) \<and>
   get_transitions ex_model ex_info0 = ([''ignoring unknown species sa9''], Inr ex_info)"
proof -
  have h1: "distinct (map fst ex_info0)"
    by (simp add: ex_info0_def)
  have rs: "reactions ex_model = [ex_reaction]"
    by code_simp
  have parts: "reaction_parts ex_reaction = Inr (ex_influence, [Some ''sa2'', Some ''sa9''])"
    by code_simp
  have ps: "map reaction_parts (reactions ex_model) =
      [Inr (ex_influence, [Some ''sa2'', Some ''sa9''])]"
    by (simp add: rs parts)
  have h2: "\<forall>r \<in> set (reactions ex_model). \<exists>p. reaction_parts r = Inr p"
    by (simp add: rs parts del: split_paired_Ex)
  note th = unknown_product_skip
    [OF h1, of ex_influence "[Some ''sa2'', Some ''sa9'']" "[]" ex_model]
  have t1: "map (\<lambda>(k, d). (k, d\<lparr>r_transitions := r_transitions d @
              replicate (count_list [Some ''sa2'', Some ''sa9''] k) ex_influence\<rparr>)) ex_info0 =
            ex_info"
    by code_simp
  have d1: "[] @ map (\<lambda>p. ''ignoring unknown species '' @ py_str p)
              (filter (\<lambda>p. p \<notin> set (map fst ex_info0)) [Some ''sa2'', Some ''sa9'']) =
            [''ignoring unknown species sa9'']"
    by code_simp
  have t2: "map (\<lambda>(k, d). (k, d\<lparr>r_transitions := r_transitions d @
              concat (map (contributed k) (reactions ex_model))\<rparr>)) ex_info0 = ex_info"
    by code_simp
  have d2: "concat (map (diagnostics (map fst ex_info0)) (reactions ex_model)) =
            [''ignoring unknown species sa9'']"
    by code_simp
  from th have "products_loop ex_influence [Some ''sa2'', Some ''sa9''] (ex_info0, []) =
      (ex_info, [''ignoring unknown species sa9''])"
    unfolding t1 d1 by (rule conjunct1)
  moreover from th h2 have "get_transitions ex_model ex_info0 =
      ([''ignoring unknown species sa9''], Inr ex_info)"
    unfolding t2 d2 by blast
  ultimately show ?thesis
    using h1 ps by blast
qed

section \<open>Species extraction in closed form\<close>

lemma findall_append: "findall e (path @ [s]) = select s (findall e path)"
  by (simp add: findall_def)

lemma aliases_filter:
  "aliases model =
     filter (\<lambda>a. get a ''compartmentAlias'' \<noteq> None) (findall model complex_alias_path) @
     filter (\<lambda>a. get a ''compartmentAlias'' \<noteq> None) (findall model species_alias_path)"
  by (simp add: aliases_def findall_append)

lemma setitem_new:
  assumes "k \<notin> set (map fst d)"
  shows "setitem k v d = d @ [(k, v)]"
  using assms by (induction d) auto

lemma setitem_keys:
  "fst ` set (setitem k v d) = insert k (fst ` set d)"
proof (induction d)
  case Nil
  then show ?case by simp
next
  case (Cons p d)
  obtain k' v' where p: "p = (k', v')" by (cases p)
  show ?case
    unfolding p by (cases "k' = k") (simp_all add: Cons.IH insert_commute)
qed

lemma setitem_distinct:
  assumes "distinct (map fst d)"
  shows "distinct (map fst (setitem k v d))"
  using assms
proof (induction d)
  case Nil
  then show ?case by simp
next
  case (Cons p d)
  obtain k' v' where p: "p = (k', v')" by (cases p)
  show ?case
    using Cons unfolding p by (cases "k' = k") (simp_all add: setitem_keys)
qed

lemma setitem_values:
  "set (setitem k v d) \<subseteq> insert (k, v) (set d)"
  by (induction d) (auto split: if_splits)

lemma alias_entry_result:
  assumes "alias_entry model a = Inr (k, v)"
  shows "k = get a ''id'' \<and> r_transitions v = []"
  using assms
  by (auto simp: alias_entry_def Let_def split: option.splits sum.splits)

lemma species_loop_keys:
  assumes "species_loop model d as = Inr info" and "distinct (map fst d)"
  shows "distinct (map fst info) \<and>
         set (map fst info) = set (map fst d) \<union> set (map (\<lambda>a. get a ''id'') as) \<and>
         (\<forall>p \<in> set info. p \<in> set d \<or> r_transitions (snd p) = [])"
  using assms
proof (induction as arbitrary: d)
  case Nil
  then show ?case by auto
next
  case (Cons a as)
  from Cons.prems(1) obtain k v where e: "alias_entry model a = Inr (k, v)"
    and rest: "species_loop model (setitem k v d) as = Inr info"
    by (auto split: sum.splits)
  from alias_entry_result [OF e] have k: "k = get a ''id''" and v: "r_transitions v = []"
    by simp_all
  from Cons.IH [OF rest setitem_distinct [OF Cons.prems(2)]]
  have ih: "distinct (map fst info)"
    "set (map fst info) = set (map fst (setitem k v d)) \<union> set (map (\<lambda>a. get a ''id'') as)"
    "\<forall>p \<in> set info. p \<in> set (setitem k v d) \<or> r_transitions (snd p) = []"
    by simp_all
  have "\<forall>p \<in> set info. p \<in> set d \<or> r_transitions (snd p) = []"
  proof
    fix p assume "p \<in> set info"
    with ih(3) have "p \<in> set (setitem k v d) \<or> r_transitions (snd p) = []" by blast
    with setitem_values [of k v d] v show "p \<in> set d \<or> r_transitions (snd p) = []"
      by auto
  qed
  with ih(1,2) show ?case
    by (simp add: setitem_keys k)
qed

lemma species_loop_order:
  assumes "species_loop model d as = Inr info"
    and "distinct (map (\<lambda>a. get a ''id'') as)"
    and "set (map (\<lambda>a. get a ''id'') as) \<inter> set (map fst d) = {}"
  shows "map Inr info = map Inr d @ map (alias_entry model) as"
  using assms
proof (induction as arbitrary: d)
  case Nil
  then show ?case by simp
next
  case (Cons a as)
  from Cons.prems(1) obtain k v where e: "alias_entry model a = Inr (k, v)"
    and rest: "species_loop model (setitem k v d) as = Inr info"
    by (auto split: sum.splits)
  from alias_entry_result [OF e] have k: "k = get a ''id''" by simp
  with Cons.prems(3) have new: "k \<notin> set (map fst d)" by auto
  have step: "setitem k v d = d @ [(k, v)]"
    by (rule setitem_new [OF new])
  have "map Inr info = map Inr (d @ [(k, v)]) @ map (alias_entry model) as"
  proof (rule Cons.IH)
    show "species_loop model (d @ [(k, v)]) as = Inr info"
      using rest by (simp add: step)
    show "distinct (map (\<lambda>a. get a ''id'') as)"
      using Cons.prems(2) by simp
    show "set (map (\<lambda>a. get a ''id'') as) \<inter> set (map fst (d @ [(k, v)])) = {}"
      using Cons.prems(2,3) k by auto
  qed
  then show ?case
    by (simp add: e)
qed

lemma species_info_table:
  assumes "species_info model = Inr info"
  shows "distinct (map fst info)"
    and "set (map fst info) = set (map (\<lambda>a. get a ''id'') (aliases model))"
    and "\<forall>p \<in> set info. r_transitions (snd p) = []"
    and "distinct (map (\<lambda>a. get a ''id'') (aliases model)) \<Longrightarrow>
         map Inr info = map (alias_entry model) (aliases model)"
proof -
  from assms have loop: "species_loop model [] (aliases model) = Inr info"
    by (simp add: species_info_def)
  from species_loop_keys [OF loop]
  show "distinct (map fst info)"
    and "set (map fst info) = set (map (\<lambda>a. get a ''id'') (aliases model))"
    and "\<forall>p \<in> set info. r_transitions (snd p) = []"
    by simp_all
  show "map Inr info = map (alias_entry model) (aliases model)"
    if "distinct (map (\<lambda>a. get a ''id'') (aliases model))"
    using species_loop_order [OF loop that] by simp
qed

text \<open>
  C2. The aliases processed are the complex-species aliases that carry a
  \<^verbatim>\<open>compartmentAlias\<close> attribute followed by the simple-species aliases that carry
  one: both paths of the source end in \<^verbatim>\<open>[@compartmentAlias]\<close>, so a complex alias
  without a compartment is left out like a simple one. For a document whose species
  references hold no double quote and on which species extraction returns a table,
  the keys of the table are exactly the ids of the aliases processed, and no key
  occurs twice. When these aliases have distinct ids, as the ids of a document do,
  the table holds one record per alias, in document order with the complex aliases
  first: the record built from that alias.
\<close>

theorem species_table_coverage:
  assumes "species_info model = Inr info" and "quote_free_references model"
  shows "aliases model =
           filter (\<lambda>a. get a ''compartmentAlias'' \<noteq> None) (findall model complex_alias_path) @
           filter (\<lambda>a. get a ''compartmentAlias'' \<noteq> None) (findall model species_alias_path) \<and>
         set (map fst info) = set (map (\<lambda>a. get a ''id'') (aliases model)) \<and>
         distinct (map fst info) \<and>
         (distinct (map (\<lambda>a. get a ''id'') (aliases model)) \<longrightarrow>
            length info = length (aliases model) \<and>
            map fst info = map (\<lambda>a. get a ''id'') (aliases model) \<and>
            map Inr info = map (alias_entry model) (aliases model))"
proof (intro conjI impI)
  show "aliases model =
          filter (\<lambda>a. get a ''compartmentAlias'' \<noteq> None) (findall model complex_alias_path) @
          filter (\<lambda>a. get a ''compartmentAlias'' \<noteq> None) (findall model species_alias_path)"
    by (rule aliases_filter)
  show "set (map fst info) = set (map (\<lambda>a. get a ''id'') (aliases model))"
    by (rule species_info_table(2) [OF assms(1)])
  show "distinct (map fst info)"
    by (rule species_info_table(1) [OF assms(1)])
next
  assume d: "distinct (map (\<lambda>a. get a ''id'') (aliases model))"
  show eq: "map Inr info = map (alias_entry model) (aliases model)"
    by (rule species_info_table(4) [OF assms(1) d])
  from eq have "length (map Inr info :: (error + _) list) =
      length (map (alias_entry model) (aliases model))"
    by simp
  then show len: "length info = length (aliases model)"
    by simp
  show "map fst info = map (\<lambda>a. get a ''id'') (aliases model)"
  proof (rule nth_equalityI)
    show "length (map fst info) = length (map (\<lambda>a. get a ''id'') (aliases model))"
      using len by simp
  next
    fix i assume "i < length (map fst info)"
    then have i: "i < length info" "i < length (aliases model)"
      using len by simp_all
    from eq have "map Inr info ! i = map (alias_entry model) (aliases model) ! i"
      by simp
    with i have "alias_entry model (aliases model ! i) = Inr (fst (info ! i), snd (info ! i))"
      by simp
    from alias_entry_result [OF this] i
    show "map fst info ! i = map (\<lambda>a. get a ''id'') (aliases model) ! i"
      by simp
  qed
qed

theorem species_table_coverage_witness:
  "species_info cx_model = Inr cx_info \<and>
   quote_free_references cx_model \<and>
   distinct (map (\<lambda>a. get a ''id'') (aliases cx_model)) \<and>
   map (\<lambda>a. get a ''id'') (findall cx_model complex_alias_path @
                             findall cx_model species_alias_path) =
     [Some ''csa1'', Some ''csa2'', Some ''sa1'', Some ''sa3''] \<and>
   map fst cx_info = [Some ''csa2'', Some ''sa1''] \<and>
   length cx_info = length (aliases cx_model) \<and>
   map fst cx_info = map (\<lambda>a. get a ''id'') (aliases cx_model)"
proof -
  have h: "species_info cx_model = Inr cx_info"
    by code_simp
  have q: "quote_free_references cx_model"
    by code_simp
  have d: "distinct (map (\<lambda>a. get a ''id'') (aliases cx_model))"
    by code_simp
  have all: "map (\<lambda>a. get a ''id'') (findall cx_model complex_alias_path @
                                       findall cx_model species_alias_path) =
             [Some ''csa1'', Some ''csa2'', Some ''sa1'', Some ''sa3'']"
    by code_simp
  have keys: "map fst cx_info = [Some ''csa2'', Some ''sa1'']"
    by (simp add: cx_info_def)
  from species_table_coverage [OF h q] d
  have "length cx_info = length (aliases cx_model) \<and>
        map fst cx_info = map (\<lambda>a. get a ''id'') (aliases cx_model)"
    by blast
  with h q d all keys show ?thesis
    by blast
qed

text \<open>
  The document \<open>cx_model\<close> has the complex-species alias \<open>csa1\<close>, which carries no
  \<^verbatim>\<open>compartmentAlias\<close> attribute. Species extraction returns a table of two records for
  its four aliases, and the table has no record for \<open>csa1\<close>: not every complex-species
  alias gets a record.
\<close>

theorem complex_alias_outside_compartment:
  "findall cx_model complex_alias_path =
     [alias_elem ''complexSpeciesAlias'' ''csa1'' ''s3'' [],
      alias_elem ''complexSpeciesAlias'' ''csa2'' ''s3'' [(''compartmentAlias'', ''ca1'')]] \<and>
   get (alias_elem ''complexSpeciesAlias'' ''csa1'' ''s3'' []) ''id'' = Some ''csa1'' \<and>
   get (alias_elem ''complexSpeciesAlias'' ''csa1'' ''s3'' []) ''compartmentAlias'' = None \<and>
   species_info cx_model = Inr cx_info \<and>
   map_of cx_info (Some ''csa1'') = None \<and>
   length cx_info = 2"
proof (intro conjI)
  show "findall cx_model complex_alias_path =
     [alias_elem ''complexSpeciesAlias'' ''csa1'' ''s3'' [],
      alias_elem ''complexSpeciesAlias'' ''csa2'' ''s3'' [(''compartmentAlias'', ''ca1'')]]"
    by code_simp
  show "get (alias_elem ''complexSpeciesAlias'' ''csa1'' ''s3'' []) ''id'' = Some ''csa1''"
    by code_simp
  show "get (alias_elem ''complexSpeciesAlias'' ''csa1'' ''s3'' []) ''compartmentAlias'' = None"
    by code_simp
  show "species_info cx_model = Inr cx_info"
    by code_simp
  show "map_of cx_info (Some ''csa1'') = None"
    by code_simp
  show "length cx_info = 2"
    by (simp add: cx_info_def)
qed

section \<open>Order of the inputs\<close>

lemma chain_inputs_aliases:
  "map snd (chain_inputs (rtype, reacs, mods)) = reacs @ map snd mods"
proof -
  have "map (snd \<circ> (\<lambda>(i, modifier). (Index i, modifier))) (enumerate 0 reacs) =
          map snd (enumerate 0 reacs)"
    by (rule map_cong) auto
  moreover have "map (snd \<circ> (\<lambda>(ty, modifier). (Tag ty, modifier))) mods = map snd mods"
    by (rule map_cong) auto
  ultimately show ?thesis
    by (simp add: chain_inputs_def)
qed

lemma contributing_aliases:
  "map snd (concat (map chain_inputs ts)) =
     concat (map (\<lambda>(rtype, reacs, mods). reacs @ map snd mods) ts)"
  by (induction ts) (auto simp: chain_inputs_aliases)

lemma map_enumerate_snd: "map (\<lambda>p. f (snd p)) (enumerate n xs) = map f xs"
  by (induction xs arbitrary: n) simp_all

lemma map_enumerate_fst:
  "map (\<lambda>p. f (fst p)) (enumerate n xs) = map f [n..<n + length xs]"
  by (induction xs arbitrary: n) (simp_all add: upt_conv_Cons del: upt_Suc)

lemma input_species_eq:
  "map (\<lambda>e. get e ''qual:qualitativeSpecies'')
     (map (\<lambda>(i, (mt, m)). input_element species i mt m) (enumerate n xs)) =
   map Some (map snd xs)"
proof -
  have "map (\<lambda>e. get e ''qual:qualitativeSpecies'')
          (map (\<lambda>(i, (mt, m)). input_element species i mt m) (enumerate n xs)) =
        map (\<lambda>p. (Some \<circ> snd) (snd p)) (enumerate n xs)"
    by (simp add: comp_def split_beta input_element_attrs)
  then show ?thesis
    by (simp only: map_enumerate_snd map_map)
qed

lemma input_ids_eq:
  "map (\<lambda>e. get e ''qual:id'')
     (map (\<lambda>(i, (mt, m)). input_element species i mt m) (enumerate n xs)) =
   map (\<lambda>i. Some (Some (''tr_'' @ py_str species @ ''_in_'' @ str_nat i)))
     [n..<n + length xs]"
proof -
  have "map (\<lambda>e. get e ''qual:id'')
          (map (\<lambda>(i, (mt, m)). input_element species i mt m) (enumerate n xs)) =
        map (\<lambda>p. (\<lambda>i. Some (Some (''tr_'' @ py_str species @ ''_in_'' @ str_nat i))) (fst p))
          (enumerate n xs)"
    by (simp add: comp_def split_beta input_element_attrs)
  then show ?thesis
    by (simp only: map_enumerate_fst
        [of "\<lambda>i. Some (Some (''tr_'' @ py_str species @ ''_in_'' @ str_nat i))"])
qed

lemma get_transitions_table:
  assumes "get_transitions model info0 = (out, Inr info)" and "distinct (map fst info0)"
  shows "info = extend_transitions (\<lambda>k. concat (map (contributed k) (reactions model))) info0"
proof -
  from assms(1) have loop: "reactions_loop (reactions model) (info0, []) = (out, Inr info)"
    by (simp add: get_transitions_def)
  from reactions_loop_eq [OF assms(2) reactions_loop_parsed [OF loop], of "[]"] loop
  show ?thesis by simp
qed

text \<open>
  C5. For the table that the two extractors build and any of its entries, the
  entry's transitions are the tuples of the reactions that list its key as a base
  product, in the order of the reaction elements in the document. The inputs of its
  transition reference, in order, for each of these tuples its base reactants and
  then the aliases of its modifiers; the id of the input at position \<open>i\<close> (counted
  from 0 through all tuples) is \<^verbatim>\<open>tr_<species>_in_<i>\<close>.
\<close>

theorem input_order_and_ids:
  assumes "species_info model = Inr info0"
    and "get_transitions model info0 = (out, Inr info)"
    and "(species, data) \<in> set info"
  shows "r_transitions data = concat (map (contributed species) (reactions model)) \<and>
         (let ins = transition_inputs (transition_element species data);
              contributing =
                concat (map (\<lambda>(rtype, reacs, mods). reacs @ map snd mods)
                          (r_transitions data))
          in map (\<lambda>e. get e ''qual:qualitativeSpecies'') ins = map Some contributing \<and>
             map (\<lambda>e. get e ''qual:id'') ins =
               map (\<lambda>i. Some (Some (''tr_'' @ py_str species @ ''_in_'' @ str_nat i)))
                 [0..<length contributing])"
proof
  have info: "info =
      extend_transitions (\<lambda>k. concat (map (contributed k) (reactions model))) info0"
    by (rule get_transitions_table [OF assms(2) species_info_table(1) [OF assms(1)]])
  with assms(3) obtain d0 where d0: "(species, d0) \<in> set info0"
    and data: "data = d0\<lparr>r_transitions :=
                 r_transitions d0 @ concat (map (contributed species) (reactions model))\<rparr>"
    by (auto simp: extend_transitions_def)
  from species_info_table(3) [OF assms(1)] d0 have "r_transitions d0 = []"
    by force
  with data show "r_transitions data = concat (map (contributed species) (reactions model))"
    by simp
next
  let ?cs = "concat (map chain_inputs (r_transitions data))"
  have len: "length (concat (map (\<lambda>(rtype, reacs, mods). reacs @ map snd mods)
                        (r_transitions data))) = length ?cs"
    unfolding contributing_aliases [symmetric] by simp
  show "let ins = transition_inputs (transition_element species data);
            contributing =
              concat (map (\<lambda>(rtype, reacs, mods). reacs @ map snd mods) (r_transitions data))
        in map (\<lambda>e. get e ''qual:qualitativeSpecies'') ins = map Some contributing \<and>
           map (\<lambda>e. get e ''qual:id'') ins =
             map (\<lambda>i. Some (Some (''tr_'' @ py_str species @ ''_in_'' @ str_nat i)))
               [0..<length contributing]"
    unfolding Let_def transition_inputs_eq input_species_eq input_ids_eq len
    by (simp add: contributing_aliases)
qed

theorem input_order_and_ids_witness:
  "species_info ex_model = Inr ex_info0 \<and>
   get_transitions ex_model ex_info0 = ([''ignoring unknown species sa9''], Inr ex_info) \<and>
   (Some ''sa2'', ex_record ''B'' ''GENE'' [Some ''phosphorylated''] [ex_influence])
     \<in> set ex_info \<and>
   [ex_influence] = concat (map (contributed (Some ''sa2'')) (reactions ex_model)) \<and>
   map (\<lambda>e. get e ''qual:qualitativeSpecies'')
     (transition_inputs (transition_element (Some ''sa2'')
        (ex_record ''B'' ''GENE'' [Some ''phosphorylated''] [ex_influence]))) =
     [Some (Some ''sa1''), Some (Some ''csa1''), Some (Some ''sa1'')] \<and>
   map (\<lambda>e. get e ''qual:id'')
     (transition_inputs (transition_element (Some ''sa2'')
        (ex_record ''B'' ''GENE'' [Some ''phosphorylated''] [ex_influence]))) =
     [Some (Some ''tr_sa2_in_0''), Some (Some ''tr_sa2_in_1''), Some (Some ''tr_sa2_in_2'')]"
proof -
  have h1: "species_info ex_model = Inr ex_info0"
    by code_simp
  have h2: "get_transitions ex_model ex_info0 =
              ([''ignoring unknown species sa9''], Inr ex_info)"
    by code_simp
  have h3: "(Some ''sa2'', ex_record ''B'' ''GENE'' [Some ''phosphorylated''] [ex_influence])
              \<in> set ex_info"
    by (simp add: ex_info_def)
  have r: "r_transitions (ex_record ''B'' ''GENE'' [Some ''phosphorylated''] [ex_influence]) =
             [ex_influence]"
    by (simp add: ex_record_def)
  have c: "concat (map (\<lambda>(rtype, reacs, mods). reacs @ map snd mods) [ex_influence]) =
             [Some ''sa1'', Some ''csa1'', Some ''sa1'']"
    by (simp add: ex_influence_def)
  have ids: "map (\<lambda>i. Some (Some (''tr_'' @ py_str (Some ''sa2'') @ ''_in_'' @ str_nat i)))
               [0..<length [Some ''sa1'', Some ''csa1'', Some ''sa1'']] =
             [Some (Some ''tr_sa2_in_0''), Some (Some ''tr_sa2_in_1''),
              Some (Some ''tr_sa2_in_2'')]"
    by code_simp
  have th: "[ex_influence] = concat (map (contributed (Some ''sa2'')) (reactions ex_model)) \<and>
     map (\<lambda>e. get e ''qual:qualitativeSpecies'')
       (transition_inputs (transition_element (Some ''sa2'')
          (ex_record ''B'' ''GENE'' [Some ''phosphorylated''] [ex_influence]))) =
       [Some (Some ''sa1''), Some (Some ''csa1''), Some (Some ''sa1'')] \<and>
     map (\<lambda>e. get e ''qual:id'')
       (transition_inputs (transition_element (Some ''sa2'')
          (ex_record ''B'' ''GENE'' [Some ''phosphorylated''] [ex_influence]))) =
       [Some (Some ''tr_sa2_in_0''), Some (Some ''tr_sa2_in_1''), Some (Some ''tr_sa2_in_2'')]"
    by (rule input_order_and_ids
        [OF h1 h2 h3, unfolded Let_def r c, unfolded ids list.map])
  show ?thesis
    using h1 h2 h3 th by blast
qed

section \<open>Defaults and failures of species extraction\<close>

lemma alias_entry_ok:
  assumes "lookups_ok model a"
  shows "\<exists>d annot. alias_annotation model a = Some annot \<and>
           alias_entry model a = Inr (get a ''id'', d) \<and>
           r_type d = get_class (find_elem annot [Self, Desc (cd ''class'')]) \<and>
           r_modifications d =
             get_mods (find_elem annot [Self, Desc (cd ''listOfModifications'')])"
  using assms
  by (auto simp: lookups_ok_def alias_annotation_def alias_entry_def Let_def
      split: option.splits sum.splits)

lemma species_loop_total:
  assumes "\<forall>a \<in> set as. \<exists>p. alias_entry model a = Inr p"
  shows "\<exists>info. species_loop model d as = Inr info"
  using assms
proof (induction as arbitrary: d)
  case Nil
  then show ?case by simp
next
  case (Cons a as)
  from Cons.prems obtain k v where e: "alias_entry model a = Inr (k, v)"
    by force
  from Cons.prems have "\<forall>a \<in> set as. \<exists>p. alias_entry model a = Inr p"
    by simp
  from Cons.IH [OF this, of "setitem k v d"] e show ?case
    by simp
qed

text \<open>
  C6. Let every alias that species extraction processes have a species reference
  without a double quote and the parts whose lookup the source does not guard: an
  activity, bounds, and a species definition with an annotation. Then species
  extraction returns a table, whatever the annotations hold: for each alias the record is built, its class is \<^verbatim>\<open>PROTEIN\<close> when the
  annotation has no class element, and its modifications are empty when the
  annotation has no modification list. Both defaults are what \<^verbatim>\<open>get_class\<close> and
  \<^verbatim>\<open>get_mods\<close> return for \<^verbatim>\<open>None\<close>.
\<close>

theorem class_and_modification_defaults:
  assumes "\<forall>a \<in> set (aliases model). lookups_ok model a"
  shows "get_class None = Some ''PROTEIN'' \<and> get_mods None = [] \<and>
         (\<exists>info. species_info model = Inr info \<and>
            (\<forall>a \<in> set (aliases model). \<exists>d annot.
               alias_annotation model a = Some annot \<and>
               alias_entry model a = Inr (get a ''id'', d) \<and>
               (find_elem annot [Self, Desc (cd ''class'')] = None \<longrightarrow>
                  r_type d = Some ''PROTEIN'') \<and>
               (find_elem annot [Self, Desc (cd ''listOfModifications'')] = None \<longrightarrow>
                  r_modifications d = []) \<and>
               (distinct (map (\<lambda>a. get a ''id'') (aliases model)) \<longrightarrow>
                  (get a ''id'', d) \<in> set info)))"
proof (intro conjI)
  show c: "get_class None = Some ''PROTEIN''"
    by (simp add: get_class_def)
  show m: "get_mods None = []"
    by (simp add: get_mods_def)
  have each: "\<exists>d annot. alias_annotation model a = Some annot \<and>
      alias_entry model a = Inr (get a ''id'', d) \<and>
      (find_elem annot [Self, Desc (cd ''class'')] = None \<longrightarrow> r_type d = Some ''PROTEIN'') \<and>
      (find_elem annot [Self, Desc (cd ''listOfModifications'')] = None \<longrightarrow>
         r_modifications d = [])"
    if "a \<in> set (aliases model)" for a
  proof -
    from assms that have "lookups_ok model a" by blast
    from alias_entry_ok [OF this] obtain d annot where
      "alias_annotation model a = Some annot"
      "alias_entry model a = Inr (get a ''id'', d)"
      "r_type d = get_class (find_elem annot [Self, Desc (cd ''class'')])"
      "r_modifications d =
         get_mods (find_elem annot [Self, Desc (cd ''listOfModifications'')])"
      by blast
    with c m show ?thesis by auto
  qed
  then have "\<forall>a \<in> set (aliases model). \<exists>p. alias_entry model a = Inr p"
    by blast
  from species_loop_total [OF this, of "[]"] obtain info where
    info: "species_info model = Inr info"
    by (auto simp: species_info_def)
  have "\<exists>d annot. alias_annotation model a = Some annot \<and>
      alias_entry model a = Inr (get a ''id'', d) \<and>
      (find_elem annot [Self, Desc (cd ''class'')] = None \<longrightarrow> r_type d = Some ''PROTEIN'') \<and>
      (find_elem annot [Self, Desc (cd ''listOfModifications'')] = None \<longrightarrow>
         r_modifications d = []) \<and>
      (distinct (map (\<lambda>a. get a ''id'') (aliases model)) \<longrightarrow> (get a ''id'', d) \<in> set info)"
    if a: "a \<in> set (aliases model)" for a
  proof -
    from each [OF a] obtain d annot where
      e: "alias_annotation model a = Some annot"
        "alias_entry model a = Inr (get a ''id'', d)"
        "find_elem annot [Self, Desc (cd ''class'')] = None \<longrightarrow> r_type d = Some ''PROTEIN''"
        "find_elem annot [Self, Desc (cd ''listOfModifications'')] = None \<longrightarrow>
           r_modifications d = []"
      by - ((erule exE)+, elim conjE, rule that)
    have mem: "(get a ''id'', d) \<in> set info"
      if "distinct (map (\<lambda>a. get a ''id'') (aliases model))"
    proof -
      from species_info_table(4) [OF info that]
      have "set (map Inr info) = set (map (alias_entry model) (aliases model))"
        by simp
      moreover from a e(2) have "Inr (get a ''id'', d) \<in> set (map (alias_entry model) (aliases model))"
        by force
      ultimately have "(Inr (get a ''id'', d) :: error + _) \<in> set (map Inr info)"
        by simp
      then show ?thesis by auto
    qed
    show ?thesis
      apply (rule exI [of _ d])
      apply (rule exI [of _ annot])
      apply (intro conjI impI)
          apply (rule e(1))
         apply (rule e(2))
        apply (erule e(3) [rule_format])
       apply (erule e(4) [rule_format])
      apply (erule mem)
      done
  qed
  with info show "\<exists>info. species_info model = Inr info \<and>
      (\<forall>a \<in> set (aliases model). \<exists>d annot.
         alias_annotation model a = Some annot \<and>
         alias_entry model a = Inr (get a ''id'', d) \<and>
         (find_elem annot [Self, Desc (cd ''class'')] = None \<longrightarrow>
            r_type d = Some ''PROTEIN'') \<and>
         (find_elem annot [Self, Desc (cd ''listOfModifications'')] = None \<longrightarrow>
            r_modifications d = []) \<and>
         (distinct (map (\<lambda>a. get a ''id'') (aliases model)) \<longrightarrow>
            (get a ''id'', d) \<in> set info))"
    by blast
qed

theorem class_and_modification_defaults_witness:
  "list_all (lookups_ok ex_model) (aliases ex_model) \<and>
   species_info ex_model = Inr ex_info0 \<and>
   (get_class None = Some ''PROTEIN'' \<and> get_mods None = [] \<and>
    (\<exists>info. species_info ex_model = Inr info \<and>
       (\<forall>a \<in> set (aliases ex_model). \<exists>d annot.
          alias_annotation ex_model a = Some annot \<and>
          alias_entry ex_model a = Inr (get a ''id'', d) \<and>
          (find_elem annot [Self, Desc (cd ''class'')] = None \<longrightarrow>
             r_type d = Some ''PROTEIN'') \<and>
          (find_elem annot [Self, Desc (cd ''listOfModifications'')] = None \<longrightarrow>
             r_modifications d = []) \<and>
          (distinct (map (\<lambda>a. get a ''id'') (aliases ex_model)) \<longrightarrow>
             (get a ''id'', d) \<in> set info))))"
proof -
  have l: "list_all (lookups_ok ex_model) (aliases ex_model)"
    by code_simp
  then have h: "\<forall>a \<in> set (aliases ex_model). lookups_ok ex_model a"
    by (simp add: list_all_iff)
  have t: "species_info ex_model = Inr ex_info0"
    by code_simp
  show ?thesis
    by (rule conjI [OF l conjI [OF t class_and_modification_defaults [OF h]]])
qed

text \<open>
  C9. Four documents of the expected schema with one alias in a compartment: the
  alias without an activity, the alias without bounds, the alias whose species
  definition is absent, and the alias whose species definition has no annotation.
  Species extraction raises on each, and the run ends with that exception before
  anything is written. The same alias with all four parts, and a species definition
  with neither class nor modifications, yields a record with the two defaults.
\<close>

theorem unguarded_lookups_raise:
  "species_info (mini_model [ex_bounds] [species_elem ''s1'' [(''name'', ''A'')] []]) =
     Inl AttributeError \<and>
   species_info (mini_model [ex_activity] [species_elem ''s1'' [(''name'', ''A'')] []]) =
     Inl AttributeError \<and>
   species_info (mini_model [ex_activity, ex_bounds] []) = Inl AttributeError \<and>
   species_info (mini_model [ex_activity, ex_bounds]
     [Element (sbml ''species'') [(''id'', ''s1''), (''name'', ''A'')] None []]) =
     Inl AttributeError \<and>
   species_info (mini_model [ex_activity, ex_bounds]
     [species_elem ''s1'' [(''name'', ''A'')] []]) =
     Inr [(Some ''sa1'', ex_record ''A'' ''PROTEIN'' [] [])] \<and>
   main ex_argv (one_file ''in.xml''
     (sbml_root (mini_model [ex_bounds] [species_elem ''s1'' [(''name'', ''A'')] []]))) =
     \<lparr>stdout = [''parsing in.xml'' @ [CHR 0xE2, CHR 0x80, CHR 0xA6]],
      raised = Some AttributeError, written = Untouched\<rparr>"
proof (intro conjI)
  show "species_info (mini_model [ex_bounds] [species_elem ''s1'' [(''name'', ''A'')] []]) =
          Inl AttributeError"
    by code_simp
  show "species_info (mini_model [ex_activity] [species_elem ''s1'' [(''name'', ''A'')] []]) =
          Inl AttributeError"
    by code_simp
  show "species_info (mini_model [ex_activity, ex_bounds] []) = Inl AttributeError"
    by code_simp
  show "species_info (mini_model [ex_activity, ex_bounds]
          [Element (sbml ''species'') [(''id'', ''s1''), (''name'', ''A'')] None []]) =
          Inl AttributeError"
    by code_simp
  show "species_info (mini_model [ex_activity, ex_bounds]
          [species_elem ''s1'' [(''name'', ''A'')] []]) =
          Inr [(Some ''sa1'', ex_record ''A'' ''PROTEIN'' [] [])]"
    by code_simp
  show "main ex_argv (one_file ''in.xml''
          (sbml_root (mini_model [ex_bounds] [species_elem ''s1'' [(''name'', ''A'')] []]))) =
          \<lparr>stdout = [''parsing in.xml'' @ [CHR 0xE2, CHR 0x80, CHR 0xA6]],
           raised = Some AttributeError, written = Untouched\<rparr>"
    by code_simp
qed

section \<open>The run as a whole\<close>

text \<open>
  C7. When the command line has its two arguments and the root of the input document
  does not have the tag of an SBML Level 2 Version 4 root, the run prints the progress
  line and the message, ends with \<^verbatim>\<open>exit(1)\<close>, and leaves the output path untouched.
\<close>

theorem schema_mismatch_is_fatal:
  assumes "length argv = 3" and "fs (argv ! 1) = Some root" and "tag root \<noteq> sbml ''sbml''"
  shows "main argv fs =
           \<lparr>stdout = [''parsing '' @ argv ! 1 @ [CHR 0xE2, CHR 0x80, CHR 0xA6],
                      ''Currently limited to SBML Level 2 Version 4''],
            raised = Some (SystemExit 1), written = Untouched\<rparr>"
  using assms by (simp add: main_def read_celldesigner_def)

theorem schema_mismatch_is_fatal_witness:
  "length ex_argv = 3 \<and>
   one_file ''in.xml'' other_root (ex_argv ! 1) = Some other_root \<and>
   tag other_root \<noteq> sbml ''sbml'' \<and>
   main ex_argv (one_file ''in.xml'' other_root) =
     \<lparr>stdout = [''parsing '' @ ex_argv ! 1 @ [CHR 0xE2, CHR 0x80, CHR 0xA6],
                ''Currently limited to SBML Level 2 Version 4''],
      raised = Some (SystemExit 1), written = Untouched\<rparr>"
proof -
  have h1: "length ex_argv = 3"
    by (simp add: ex_argv_def)
  have h2: "one_file ''in.xml'' other_root (ex_argv ! 1) = Some other_root"
    by (simp add: ex_argv_def one_file_def)
  have h3: "tag other_root \<noteq> sbml ''sbml''"
    by (simp add: other_root_def sbml_def)
  show ?thesis
    by (rule conjI [OF h1 conjI [OF h2 conjI [OF h3 schema_mismatch_is_fatal
        [of ex_argv "one_file ''in.xml'' other_root" other_root, OF h1 h2 h3]]]])
qed

text \<open>
  C10. A document of the expected schema whose one alias refers to a species
  definition without a \<^verbatim>\<open>name\<close> attribute: both extractors succeed and the record's
  name is \<^verbatim>\<open>None\<close>; the qualitative-species element gets this \<^verbatim>\<open>None\<close> as the value
  of its name attribute, the tree cannot be serialised, and the run ends with a
  \<^verbatim>\<open>TypeError\<close> raised while writing. With a name on the species definition the same
  document is written.
\<close>

theorem missing_name_is_fatal:
  "read_celldesigner (one_file ''in.xml'' noname_root) ''in.xml'' = ([], Inr noname_info) \<and>
   map (\<lambda>q. get q ''qual:name'') (doc_qual_species (qual_tree noname_info)) = [Some None] \<and>
   \<not> serializable (qual_tree noname_info) \<and>
   main ex_argv (one_file ''in.xml'' noname_root) =
     \<lparr>stdout = [''parsing in.xml'' @ [CHR 0xE2, CHR 0x80, CHR 0xA6]],
      raised = Some TypeError, written = Truncated ''out.xml''\<rparr> \<and>
   raised (main ex_argv (one_file ''in.xml''
     (sbml_root (mini_model [ex_activity, ex_bounds]
        [species_elem ''s1'' [(''name'', ''A'')] []])))) = None"
proof (intro conjI)
  show "read_celldesigner (one_file ''in.xml'' noname_root) ''in.xml'' =
          ([], Inr noname_info)"
    by code_simp
  show "map (\<lambda>q. get q ''qual:name'') (doc_qual_species (qual_tree noname_info)) =
          [Some None]"
    by code_simp
  show "\<not> serializable (qual_tree noname_info)"
    by code_simp
  show "main ex_argv (one_file ''in.xml'' noname_root) =
          \<lparr>stdout = [''parsing in.xml'' @ [CHR 0xE2, CHR 0x80, CHR 0xA6]],
           raised = Some TypeError, written = Truncated ''out.xml''\<rparr>"
    by code_simp
  show "raised (main ex_argv (one_file ''in.xml''
          (sbml_root (mini_model [ex_activity, ex_bounds]
             [species_elem ''s1'' [(''name'', ''A'')] []])))) = None"
    by code_simp
qed

end
